theory Spec2Isabelle
  imports Complex_Main
begin

section \<open>Data model\<close>

text \<open>
  Embedding of the gesture pipeline of \<^verbatim>\<open>mpsgame.py\<close>: the orientation estimator
  (\<^verbatim>\<open>get_hand_rotation\<close>), the gesture classifier (\<^verbatim>\<open>detect_hand_direction\<close>), the
  per-hand routing, cooldown gate and smoothing of the main loop, and the volume methods of
  \<^verbatim>\<open>MusicManager\<close>.

  Python floats are modelled as real numbers: rounding, signed zeros, infinities and NaN are
  not represented. The clock \<^verbatim>\<open>pygame.time.get_ticks()\<close> is a natural number of
  milliseconds.
\<close>

text \<open>One MediaPipe landmark: the attributes \<^verbatim>\<open>.x\<close>, \<^verbatim>\<open>.y\<close>, \<^verbatim>\<open>.z\<close>.\<close>

record landmark =
  lm_x :: real
  lm_y :: real
  lm_z :: real

type_synonym landmarks = "landmark list"

type_synonym vec2 = "real \<times> real"

type_synonym vec3 = "real \<times> real \<times> real"

text \<open>
  \<open>IndexError\<close>: a landmark index beyond the end of the sequence. \<open>NonFinite\<close>: a division
  by zero inside a NumPy array expression, which yields inf or NaN entries.
\<close>

datatype error = IndexError | NonFinite

datatype direction = UP | DOWN | LEFT | RIGHT

datatype hand_role = VISUALIZER | COMMAND

text \<open>
  The calls a tick makes to the estimator, the classifier and the music manager, in the
  order in which they happen.
\<close>

datatype call =
    GetHandRotation landmarks
  | DetectHandDirection landmarks
  | VolumeUpCall
  | VolumeDownCall
  | PrevTrackCall
  | NextTrackCall

section \<open>Constants\<close>

definition WIDTH :: int where
  "WIDTH = 1280"

definition HEIGHT :: int where
  "HEIGHT = 720"

definition SMOOTHING_FACTOR :: real where
  "SMOOTHING_FACTOR = 0.08"

definition POSITION_SMOOTHING :: real where
  "POSITION_SMOOTHING = 0.15"

definition ROTATION_SENSITIVITY :: real where
  "ROTATION_SENSITIVITY = 1.2"

definition GESTURE_COOLDOWN :: real where
  "GESTURE_COOLDOWN = 0.5"

definition PUCK_POSITION_SMOOTHING :: real where
  "PUCK_POSITION_SMOOTHING = 0.15"

definition GESTURE_THRESHOLD :: real where
  "GESTURE_THRESHOLD = 0.12"

definition MOVEMENT_THRESHOLD :: real where
  "MOVEMENT_THRESHOLD = 0.05"

section \<open>Numeric helpers\<close>

text \<open>Python's \<^verbatim>\<open>int(r)\<close> on a float: truncation towards zero.\<close>

definition py_int :: "real \<Rightarrow> int" where
  "py_int r = (if 0 \<le> r then \<lfloor>r\<rfloor> else \<lceil>r\<rceil>)"

text \<open>\<^verbatim>\<open>np.linalg.norm\<close> of a vector of two and of three components.\<close>

definition norm2 :: "vec2 \<Rightarrow> real" where
  "norm2 v = sqrt ((fst v)\<^sup>2 + (snd v)\<^sup>2)"

definition norm3 :: "vec3 \<Rightarrow> real" where
  "norm3 v = sqrt ((fst v)\<^sup>2 + (fst (snd v))\<^sup>2 + (snd (snd v))\<^sup>2)"

text \<open>
  \<^verbatim>\<open>np.arctan2(y, x)\<close> on real numbers: the angle of the point \<open>(x, y)\<close> in
  \<open>(-\<pi>, \<pi>]\<close>, and 0 at the origin. NumPy distinguishes the signs of zeros there and on the
  negative x axis (\<^verbatim>\<open>arctan2(0.0, -0.0)\<close> is \<open>\<pi>\<close>); the real numbers have one zero, so the
  concrete angles evaluated below stay away from both arguments being zero.
\<close>

definition arctan2 :: "real \<Rightarrow> real \<Rightarrow> real" where
  "arctan2 b a =
     (if 0 < a then arctan (b / a)
      else if a < 0 then (if 0 \<le> b then arctan (b / a) + pi else arctan (b / a) - pi)
      else if 0 < b then pi / 2
      else if b < 0 then - (pi / 2)
      else 0)"

text \<open>
  \<^verbatim>\<open>v / (np.linalg.norm(v) + 0.0001)\<close>: the division is componentwise; a zero divisor
  is the only way it can leave the finite numbers.
\<close>

definition normalize3 :: "vec3 \<Rightarrow> error + vec3" where
  "normalize3 v =
     (let d = norm3 v + 0.0001
      in if d = 0 then Inl NonFinite
         else Inr (fst v / d, fst (snd v) / d, snd (snd v) / d))"

section \<open>Orientation estimator\<close>

definition get_hand_rotation :: "landmarks \<Rightarrow> error + (real \<times> real \<times> real)" where
  "get_hand_rotation lms =
     (if length lms \<le> 9 then Inl IndexError
      else
        let wrist = (lm_x (lms ! 0), lm_y (lms ! 0), lm_z (lms ! 0));
            middle_base = (lm_x (lms ! 9), lm_y (lms ! 9), lm_z (lms ! 9));
            index_base = (lm_x (lms ! 5), lm_y (lms ! 5), lm_z (lms ! 5));
            forward = (fst middle_base - fst wrist,
                       fst (snd middle_base) - fst (snd wrist),
                       snd (snd middle_base) - snd (snd wrist));
            side = (fst index_base - fst wrist,
                    fst (snd index_base) - fst (snd wrist),
                    snd (snd index_base) - snd (snd wrist))
        in case normalize3 forward of
             Inl e \<Rightarrow> Inl e
           | Inr fwd \<Rightarrow>
               (case normalize3 side of
                  Inl e \<Rightarrow> Inl e
                | Inr sd \<Rightarrow>
                    (let angle_y = arctan2 (fst fwd) (- snd (snd fwd)) * 1.8;
                         angle_x = arctan2 (fst (snd fwd))
                                     (sqrt ((fst fwd)\<^sup>2 + (snd (snd fwd))\<^sup>2)) * 0.3;
                         angle_z = 0
                     in Inr (angle_x, angle_y, angle_z))))"

section \<open>Gesture classifier\<close>

text \<open>The dominant-axis classification of the pointing vector (the \<^verbatim>\<open>if/elif\<close> chain).\<close>

definition classify_direction :: "vec2 \<Rightarrow> direction option" where
  "classify_direction d =
     (let abs_x = \<bar>fst d\<bar>; abs_y = \<bar>snd d\<bar>
      in if abs_x > abs_y * 1.5 then
           (if fst d > GESTURE_THRESHOLD then Some RIGHT
            else if fst d < - GESTURE_THRESHOLD then Some LEFT
            else None)
         else if abs_y > abs_x * 1.5 then
           (if snd d > GESTURE_THRESHOLD then Some DOWN
            else if snd d < - GESTURE_THRESHOLD then Some UP
            else None)
         else None)"

definition detect_hand_direction ::
  "landmarks \<Rightarrow> vec2 option \<Rightarrow> error + (direction option \<times> vec2)" where
  "detect_hand_direction lms previous_position =
     (if length lms \<le> 9 then Inl IndexError
      else
        let wrist = (lm_x (lms ! 0), lm_y (lms ! 0));
            index_tip = (lm_x (lms ! 8), lm_y (lms ! 8));
            palm_center = (lm_x (lms ! 9), lm_y (lms ! 9))
        in if (case previous_position of
                 None \<Rightarrow> False
               | Some p \<Rightarrow>
                   norm2 (fst palm_center - fst p, snd palm_center - snd p)
                     < MOVEMENT_THRESHOLD)
           then Inr (None, palm_center)
           else Inr (classify_direction
                       (fst index_tip - fst wrist, snd index_tip - snd wrist),
                     palm_center))"

section \<open>Main loop state\<close>

text \<open>
  The module-level variables the loop reads and writes. The lists are created with a fixed
  length (three angles, two coordinates) and are only ever assigned by index.
\<close>

record state =
  cube_rotation :: "real list"
  smoothed_rotation :: "real list"
  cube_position :: "int list"
  smoothed_position :: "real list"
  puck_position :: "int list"
  smoothed_puck_position :: "real list"
  active_control :: "direction option"
  last_gesture_time :: real
  previous_hand_position :: "vec2 option"

definition initial_state :: state where
  "initial_state =
     \<lparr>cube_rotation = [0, 0, 0],
      smoothed_rotation = [0, 0, 0],
      cube_position = [200, 200],
      smoothed_position = [200, 200],
      puck_position = [WIDTH - 200, HEIGHT div 2],
      smoothed_puck_position = [real_of_int (WIDTH - 200), real_of_int (HEIGHT div 2)],
      active_control = None,
      last_gesture_time = 0,
      previous_hand_position = None\<rparr>"

definition wf_state :: "state \<Rightarrow> bool" where
  "wf_state s =
     (length (cube_rotation s) = 3 \<and> length (smoothed_rotation s) = 3 \<and>
      length (cube_position s) = 2 \<and> length (smoothed_position s) = 2 \<and>
      length (puck_position s) = 2 \<and> length (smoothed_puck_position s) = 2)"

section \<open>Zone routing, cooldown gate and dispatch\<close>

definition screen_center_x :: int where
  "screen_center_x = WIDTH div 2"

definition hand_screen_x :: "landmarks \<Rightarrow> int" where
  "hand_screen_x lms = py_int (lm_x (lms ! 9) * real_of_int WIDTH)"

definition hand_screen_y :: "landmarks \<Rightarrow> int" where
  "hand_screen_y lms = py_int (lm_y (lms ! 9) * real_of_int HEIGHT)"

text \<open>The side test of the loop: \<^verbatim>\<open>hand_screen_x < screen_center_x\<close>.\<close>

definition zone_of :: "landmarks \<Rightarrow> hand_role" where
  "zone_of lms = (if hand_screen_x lms < screen_center_x then VISUALIZER else COMMAND)"

text \<open>
  The cooldown test:
  \<^verbatim>\<open>direction and (current_time - last_gesture_time) > GESTURE_COOLDOWN\<close>.
  Every direction string is non-empty, so \<^verbatim>\<open>direction\<close> is falsy only when it is
  \<^verbatim>\<open>None\<close>.
\<close>

definition accepts :: "direction option \<Rightarrow> real \<Rightarrow> real \<Rightarrow> bool" where
  "accepts dir current_time last_time =
     (dir \<noteq> None \<and> current_time - last_time > GESTURE_COOLDOWN)"

fun dispatch :: "direction \<Rightarrow> call" where
  "dispatch UP = VolumeUpCall"
| "dispatch DOWN = VolumeDownCall"
| "dispatch LEFT = PrevTrackCall"
| "dispatch RIGHT = NextTrackCall"

definition debounce :: "direction option \<Rightarrow> real \<Rightarrow> state \<Rightarrow> state \<times> call list" where
  "debounce dir current_time s =
     (if accepts dir current_time (last_gesture_time s) then
        (s\<lparr>active_control := dir, last_gesture_time := current_time\<rparr>,
         (case dir of None \<Rightarrow> [] | Some d \<Rightarrow> [dispatch d]))
      else (s, []))"

text \<open>
  The body of the loop over the detected hands, for one hand; \<open>ticks\<close> is what
  \<^verbatim>\<open>pygame.time.get_ticks()\<close> returns while this hand is processed.
\<close>

definition process_hand :: "state \<Rightarrow> landmarks \<times> nat \<Rightarrow> error + (state \<times> call list)" where
  "process_hand s h =
     (let lms = fst h; ticks = snd h
      in if length lms \<le> 9 then Inl IndexError
         else if zone_of lms = VISUALIZER then
           (case get_hand_rotation lms of
              Inl e \<Rightarrow> Inl e
            | Inr (angle_x, angle_y, angle_z) \<Rightarrow>
                Inr (s\<lparr>cube_position :=
                         (cube_position s)[0 := hand_screen_x lms, 1 := hand_screen_y lms],
                       cube_rotation :=
                         (cube_rotation s)[0 := 0, 1 := angle_y * ROTATION_SENSITIVITY,
                                           2 := 0]\<rparr>,
                     [GetHandRotation lms]))
         else
           (case detect_hand_direction lms (previous_hand_position s) of
              Inl e \<Rightarrow> Inl e
            | Inr (dir, current_palm) \<Rightarrow>
                (let s1 = s\<lparr>puck_position :=
                              (puck_position s)[0 := hand_screen_x lms,
                                                1 := hand_screen_y lms],
                            previous_hand_position := Some current_palm\<rparr>;
                     current_time = real ticks / 1000.0;
                     r = debounce dir current_time s1
                 in Inr (fst r, DetectHandDirection lms # snd r))))"

fun process_hands :: "state \<Rightarrow> (landmarks \<times> nat) list \<Rightarrow> error + (state \<times> call list)" where
  "process_hands s [] = Inr (s, [])"
| "process_hands s (h # hs) =
     (case process_hand s h of
        Inl e \<Rightarrow> Inl e
      | Inr (s1, cs1) \<Rightarrow>
          (case process_hands s1 hs of
             Inl e \<Rightarrow> Inl e
           | Inr (s2, cs2) \<Rightarrow> Inr (s2, cs1 @ cs2)))"

section \<open>Temporal smoothing\<close>

text \<open>One assignment \<^verbatim>\<open>smoothed[i] += (raw[i] - smoothed[i]) * factor\<close>.\<close>

definition smooth_step :: "real \<Rightarrow> real \<Rightarrow> real \<Rightarrow> real" where
  "smooth_step factor raw smoothed = smoothed + (raw - smoothed) * factor"

text \<open>The loop \<^verbatim>\<open>for i in range(n)\<close> around that assignment.\<close>

definition smooth :: "nat \<Rightarrow> real \<Rightarrow> real list \<Rightarrow> real list \<Rightarrow> real list" where
  "smooth n factor raw smoothed =
     fold (\<lambda>i sm. sm[i := smooth_step factor (raw ! i) (sm ! i)]) [0..<n] smoothed"

definition apply_smoothing :: "state \<Rightarrow> state" where
  "apply_smoothing s =
     s\<lparr>smoothed_rotation :=
         smooth 3 SMOOTHING_FACTOR (cube_rotation s) (smoothed_rotation s),
       smoothed_position :=
         smooth 2 POSITION_SMOOTHING (map real_of_int (cube_position s)) (smoothed_position s),
       smoothed_puck_position :=
         smooth 2 PUCK_POSITION_SMOOTHING (map real_of_int (puck_position s))
           (smoothed_puck_position s)\<rparr>"

text \<open>
  One iteration of the main loop on a frame whose detected hands are \<open>frame\<close> (the empty
  list when \<^verbatim>\<open>result.multi_hand_landmarks\<close> is \<^verbatim>\<open>None\<close>): reset
  \<^verbatim>\<open>active_control\<close>, process each hand, then smooth the three signals.
\<close>

definition tick :: "state \<Rightarrow> (landmarks \<times> nat) list \<Rightarrow> error + (state \<times> call list)" where
  "tick s frame =
     (case process_hands (s\<lparr>active_control := None\<rparr>) frame of
        Inl e \<Rightarrow> Inl e
      | Inr (s1, cs) \<Rightarrow> Inr (apply_smoothing s1, cs))"

text \<open>The smoothed value after \<open>n\<close> ticks with the raw target held at \<open>raw\<close>.\<close>

fun smooth_iter :: "nat \<Rightarrow> real \<Rightarrow> real \<Rightarrow> real \<Rightarrow> real" where
  "smooth_iter 0 factor raw smoothed = smoothed"
| "smooth_iter (Suc n) factor raw smoothed =
     smooth_iter n factor raw (smooth_step factor raw smoothed)"

section \<open>Music manager: volume\<close>

text \<open>
  The part of the Spotify client the volume methods use. \<open>current_playback\<close> is the outcome
  of \<^verbatim>\<open>sp.current_playback()\<close>: it raises, or returns \<^verbatim>\<open>None\<close>, or returns a
  playback whose \<^verbatim>\<open>['device']['volume_percent']\<close> is an integer or \<^verbatim>\<open>None\<close>.
\<close>

datatype 'a outcome = Raises | Returns 'a

record playback =
  volume_percent :: "int option"

record spotify =
  current_playback :: "playback option outcome"

text \<open>
  \<^verbatim>\<open>MusicManager.volume_up\<close> and \<^verbatim>\<open>volume_down\<close> for a manager whose \<^verbatim>\<open>self.sp\<close>
  is \<open>sp\<close>: the result is the argument of the \<^verbatim>\<open>sp.volume\<close> request, or \<open>None\<close> when no
  request is made (no client, no playback, or an exception caught by the method).
\<close>

definition volume_up :: "spotify option \<Rightarrow> int option" where
  "volume_up sp =
     (case sp of
        None \<Rightarrow> None
      | Some client \<Rightarrow>
          (case current_playback client of
             Raises \<Rightarrow> None
           | Returns None \<Rightarrow> None
           | Returns (Some current) \<Rightarrow>
               (case volume_percent current of
                  None \<Rightarrow> None
                | Some current_vol \<Rightarrow> Some (min (current_vol + 10) 100))))"

definition volume_down :: "spotify option \<Rightarrow> int option" where
  "volume_down sp =
     (case sp of
        None \<Rightarrow> None
      | Some client \<Rightarrow>
          (case current_playback client of
             Raises \<Rightarrow> None
           | Returns None \<Rightarrow> None
           | Returns (Some current) \<Rightarrow>
               (case volume_percent current of
                  None \<Rightarrow> None
                | Some current_vol \<Rightarrow> Some (max (current_vol - 10) 0))))"

section \<open>A landmark set for concrete evaluation\<close>

text \<open>
  A 21-point landmark set given by its wrist (index 0), index fingertip (index 8) and palm
  centre (index 9); every other landmark sits on the palm centre.
\<close>

definition example_hand :: "landmark \<Rightarrow> landmark \<Rightarrow> landmark \<Rightarrow> landmarks" where
  "example_hand wrist index_tip palm =
     [wrist, palm, palm, palm, palm, palm, palm, palm, index_tip, palm] @ replicate 11 palm"

text \<open>
  Three such hands: one in the visualizer zone whose forward vector has equal x and y
  components and no depth, and a left and a right hand at palm x-coordinates 0.2 and 0.8, the
  right one pointing straight up by 0.3.
\<close>

definition tilted_hand :: landmarks where
  "tilted_hand =
     example_hand \<lparr>lm_x = 0, lm_y = 0, lm_z = 0\<rparr> \<lparr>lm_x = 0, lm_y = 0, lm_z = 0\<rparr>
       \<lparr>lm_x = 0.25, lm_y = 0.25, lm_z = 0\<rparr>"

definition left_hand_example :: landmarks where
  "left_hand_example =
     example_hand \<lparr>lm_x = 0.1, lm_y = 0.8, lm_z = 0\<rparr> \<lparr>lm_x = 0.2, lm_y = 0.5, lm_z = 0\<rparr>
       \<lparr>lm_x = 0.2, lm_y = 0.6, lm_z = 0\<rparr>"

definition right_hand_example :: landmarks where
  "right_hand_example =
     example_hand \<lparr>lm_x = 0.8, lm_y = 0.8, lm_z = 0\<rparr> \<lparr>lm_x = 0.8, lm_y = 0.5, lm_z = 0\<rparr>
       \<lparr>lm_x = 0.8, lm_y = 0.6, lm_z = 0\<rparr>"

section \<open>The orientation estimator as the specification words it\<close>

text \<open>
  A second definition of the estimator's angles, following the specification: the forward
  vector runs from the wrist (landmark 0) to the middle-finger base (landmark 9) and is divided
  by its norm plus a small epsilon; yaw is \<open>atan2(forward.x, -forward.z)\<close> times a sensitivity
  multiplier above 1; pitch is \<open>atan2(forward.y, sqrt(forward.x\<^sup>2 + forward.z\<^sup>2))\<close> scaled
  down by 0.3.
\<close>

definition spec_yaw_multiplier :: real where
  "spec_yaw_multiplier = 1.8"

definition spec_pitch_scale :: real where
  "spec_pitch_scale = 0.3"

definition spec_forward :: "landmarks \<Rightarrow> vec3" where
  "spec_forward lms =
     (let v = (lm_x (lms ! 9) - lm_x (lms ! 0),
               lm_y (lms ! 9) - lm_y (lms ! 0),
               lm_z (lms ! 9) - lm_z (lms ! 0));
          n = norm3 v + 0.0001
      in (fst v / n, fst (snd v) / n, snd (snd v) / n))"

definition spec_yaw :: "landmarks \<Rightarrow> real" where
  "spec_yaw lms =
     arctan2 (fst (spec_forward lms)) (- snd (snd (spec_forward lms))) * spec_yaw_multiplier"

definition spec_pitch :: "landmarks \<Rightarrow> real" where
  "spec_pitch lms =
     arctan2 (fst (snd (spec_forward lms)))
       (sqrt ((fst (spec_forward lms))\<^sup>2 + (snd (snd (spec_forward lms)))\<^sup>2))
       * spec_pitch_scale"

section \<open>States left by one hand\<close>

text \<open>The states a visualizer hand and a command hand leave behind, before the cooldown gate.\<close>

definition cube_update :: "state \<Rightarrow> landmarks \<Rightarrow> real \<Rightarrow> state" where
  "cube_update s lms angle_y =
     s\<lparr>cube_position := (cube_position s)[0 := hand_screen_x lms, 1 := hand_screen_y lms],
       cube_rotation := (cube_rotation s)[0 := 0, 1 := angle_y * ROTATION_SENSITIVITY, 2 := 0]\<rparr>"

definition puck_update :: "state \<Rightarrow> landmarks \<Rightarrow> vec2 \<Rightarrow> state" where
  "puck_update s lms current_palm =
     s\<lparr>puck_position := (puck_position s)[0 := hand_screen_x lms, 1 := hand_screen_y lms],
       previous_hand_position := Some current_palm\<rparr>"

section \<open>Basic facts\<close>

lemma example_hand_length: "length (example_hand w t p) = 21"
  by (simp add: example_hand_def)

lemma example_hand_nth:
  "example_hand w t p ! 0 = w" "example_hand w t p ! 5 = p"
  "example_hand w t p ! 8 = t" "example_hand w t p ! 9 = p"
  by (simp_all add: example_hand_def)

lemma py_int_less_iff: "0 < k \<Longrightarrow> py_int r < k \<longleftrightarrow> r < real_of_int k"
  unfolding py_int_def by (auto simp: floor_less_iff ceiling_less_iff)

lemma zone_visualizer_iff: "zone_of lms = VISUALIZER \<longleftrightarrow> lm_x (lms ! 9) < 1 / 2"
  by (simp add: zone_of_def hand_screen_x_def screen_center_x_def WIDTH_def py_int_less_iff)

section \<open>Facts about the estimator and the loop body\<close>

lemma norm3_nonneg: "0 \<le> norm3 v"
  by (simp add: norm3_def)

lemma normalize3_Inr:
  "normalize3 v = Inr (fst v / (norm3 v + 0.0001), fst (snd v) / (norm3 v + 0.0001),
                       snd (snd v) / (norm3 v + 0.0001))"
proof -
  have "norm3 v + 0.0001 \<noteq> 0"
    using norm3_nonneg [of v] by simp
  then show ?thesis
    by (simp add: normalize3_def Let_def)
qed

lemma get_hand_rotation_value:
  "9 < length lms \<Longrightarrow> get_hand_rotation lms = Inr (spec_pitch lms, spec_yaw lms, 0)"
  by (simp add: get_hand_rotation_def Let_def normalize3_Inr spec_pitch_def spec_yaw_def
      spec_forward_def spec_yaw_multiplier_def spec_pitch_scale_def)

lemma detect_hand_direction_palm:
  "9 < length lms \<Longrightarrow>
     \<exists>dir. detect_hand_direction lms prev = Inr (dir, (lm_x (lms ! 9), lm_y (lms ! 9)))"
  by (simp add: detect_hand_direction_def Let_def)

lemma process_hand_short: "length lms \<le> 9 \<Longrightarrow> process_hand s (lms, t) = Inl IndexError"
  by (simp add: process_hand_def)

lemma process_hand_visualizer:
  "9 < length lms \<Longrightarrow> zone_of lms = VISUALIZER \<Longrightarrow>
     process_hand s (lms, t) = Inr (cube_update s lms (spec_yaw lms), [GetHandRotation lms])"
  by (simp add: process_hand_def get_hand_rotation_value cube_update_def)

lemma process_hand_command:
  "9 < length lms \<Longrightarrow> zone_of lms = COMMAND \<Longrightarrow>
   detect_hand_direction lms (previous_hand_position s) = Inr (dir, palm) \<Longrightarrow>
     process_hand s (lms, t) =
       Inr (fst (debounce dir (real t / 1000) (puck_update s lms palm)),
            DetectHandDirection lms # snd (debounce dir (real t / 1000) (puck_update s lms palm)))"
  by (simp add: process_hand_def puck_update_def Let_def)

lemma debounce_cases:
  "debounce dir t s = (s, []) \<or>
   (\<exists>d. dir = Some d \<and> GESTURE_COOLDOWN < t - last_gesture_time s \<and>
        debounce dir t s = (s\<lparr>active_control := dir, last_gesture_time := t\<rparr>, [dispatch d]))"
  by (cases dir) (simp_all add: debounce_def accepts_def)

lemma process_hand_cases:
  assumes "process_hand s (lms, t) = Inr (s', cs)"
  shows "9 < length lms \<and>
    ((zone_of lms = VISUALIZER \<and> s' = cube_update s lms (spec_yaw lms) \<and>
        cs = [GetHandRotation lms]) \<or>
     (zone_of lms = COMMAND \<and>
        (\<exists>dir palm. detect_hand_direction lms (previous_hand_position s) = Inr (dir, palm) \<and>
           s' = fst (debounce dir (real t / 1000) (puck_update s lms palm)) \<and>
           cs = DetectHandDirection lms #
                  snd (debounce dir (real t / 1000) (puck_update s lms palm)))))"
proof -
  have len: "9 < length lms"
  proof (rule ccontr)
    assume "\<not> 9 < length lms"
    then have "process_hand s (lms, t) = Inl IndexError"
      by (simp add: process_hand_short)
    with assms show False by simp
  qed
  show ?thesis
  proof (cases "zone_of lms")
    case VISUALIZER
    with len assms show ?thesis
      by (simp add: process_hand_visualizer)
  next
    case COMMAND
    from detect_hand_direction_palm [OF len, of "previous_hand_position s"]
    obtain dir where d: "detect_hand_direction lms (previous_hand_position s)
        = Inr (dir, (lm_x (lms ! 9), lm_y (lms ! 9)))"
      by blast
    from process_hand_command [OF len COMMAND d, of t] assms
    have "s' = fst (debounce dir (real t / 1000)
                 (puck_update s lms (lm_x (lms ! 9), lm_y (lms ! 9))))"
      and "cs = DetectHandDirection lms #
                 snd (debounce dir (real t / 1000)
                   (puck_update s lms (lm_x (lms ! 9), lm_y (lms ! 9))))"
      by simp_all
    with len COMMAND d show ?thesis by blast
  qed
qed

lemma debounce_time:
  "last_gesture_time (fst (debounce dir t s)) = last_gesture_time s \<or>
   (\<exists>d. dispatch d \<in> set (snd (debounce dir t s)))"
  using debounce_cases [of dir t s] by auto

lemma process_hand_time:
  assumes "process_hand s h = Inr (s', cs)"
  shows "last_gesture_time s' = last_gesture_time s \<or> (\<exists>d. dispatch d \<in> set cs)"
proof -
  obtain lms t where h: "h = (lms, t)" by (cases h)
  from process_hand_cases [OF assms [unfolded h]]
  consider (v) "s' = cube_update s lms (spec_yaw lms)"
    | (c) dir palm where "s' = fst (debounce dir (real t / 1000) (puck_update s lms palm))"
        "cs = DetectHandDirection lms #
                snd (debounce dir (real t / 1000) (puck_update s lms palm))"
    by blast
  then show ?thesis
  proof cases
    case v
    then show ?thesis by (simp add: cube_update_def)
  next
    case c
    have "last_gesture_time (puck_update s lms palm) = last_gesture_time s"
      by (simp add: puck_update_def)
    with debounce_time [of dir "real t / 1000" "puck_update s lms palm"] c
    show ?thesis by auto
  qed
qed

lemma process_hands_time:
  "process_hands s hs = Inr (s', cs) \<Longrightarrow>
     last_gesture_time s' = last_gesture_time s \<or> (\<exists>d. dispatch d \<in> set cs)"
proof (induction hs arbitrary: s s' cs)
  case Nil
  then show ?case by simp
next
  case (Cons h hs)
  from Cons.prems obtain s1 cs1 s2 cs2 where
    a: "process_hand s h = Inr (s1, cs1)" and b: "process_hands s1 hs = Inr (s2, cs2)"
    and c: "s' = s2" "cs = cs1 @ cs2"
    by (auto split: sum.splits prod.splits)
  from process_hand_time [OF a] Cons.IH [OF b] c show ?case by auto
qed

lemma tick_time:
  assumes "tick s frame = Inr (s', cs)"
  shows "last_gesture_time s' = last_gesture_time s \<or> (\<exists>d. dispatch d \<in> set cs)"
proof -
  from assms obtain s1 where
    a: "process_hands (s\<lparr>active_control := None\<rparr>) frame = Inr (s1, cs)"
    and b: "s' = apply_smoothing s1"
    by (auto simp: tick_def split: sum.splits prod.splits)
  from process_hands_time [OF a] b show ?thesis
    by (auto simp: apply_smoothing_def)
qed

lemma zone_command_iff: "zone_of lms = COMMAND \<longleftrightarrow> 1 / 2 \<le> lm_x (lms ! 9)"
proof -
  have "zone_of lms = COMMAND \<longleftrightarrow> zone_of lms \<noteq> VISUALIZER"
    by (cases "zone_of lms") simp_all
  then show ?thesis
    unfolding zone_visualizer_iff by auto
qed

lemma tick_empty: "tick s [] = Inr (apply_smoothing (s\<lparr>active_control := None\<rparr>), [])"
  by (simp add: tick_def)

lemma tick_single_visualizer:
  "9 < length lms \<Longrightarrow> zone_of lms = VISUALIZER \<Longrightarrow>
     tick s [(lms, t)] =
       Inr (apply_smoothing (cube_update (s\<lparr>active_control := None\<rparr>) lms (spec_yaw lms)),
            [GetHandRotation lms])"
  by (simp add: tick_def process_hand_visualizer)

lemma spec_angles_diagonal:
  assumes "lm_x (lms ! 9) - lm_x (lms ! 0) = c" and "lm_y (lms ! 9) - lm_y (lms ! 0) = c"
    and "lm_z (lms ! 9) - lm_z (lms ! 0) = 0" and "0 < c"
  shows "spec_yaw lms = 9 * pi / 10" and "spec_pitch lms = 3 * pi / 40"
proof -
  define n where "n = norm3 (c, c, 0) + 0.0001"
  have n: "0 < n"
    using norm3_nonneg [of "(c, c, 0)"] by (simp add: n_def)
  have f: "spec_forward lms = (c / n, c / n, 0)"
    by (simp add: spec_forward_def Let_def assms n_def)
  have q: "0 < c / n"
    using assms(4) n by simp
  have y: "arctan2 (c / n) 0 = pi / 2"
    using q by (simp add: arctan2_def)
  have r: "sqrt ((c / n)\<^sup>2 + 0\<^sup>2) = c / n"
  proof -
    have "sqrt ((c / n)\<^sup>2 + 0\<^sup>2) = sqrt ((c / n)\<^sup>2)"
      by simp
    also have "\<dots> = \<bar>c / n\<bar>"
      by (rule real_sqrt_abs)
    also have "\<dots> = c / n"
      using q by (rule abs_of_pos)
    finally show ?thesis .
  qed
  have "(c / n) / (c / n) = 1"
    using assms(4) n by simp
  then have d: "arctan2 (c / n) (c / n) = pi / 4"
    using q by (simp add: arctan2_def arctan_one)
  show "spec_yaw lms = 9 * pi / 10"
    unfolding spec_yaw_def f by (simp add: y spec_yaw_multiplier_def)
  show "spec_pitch lms = 3 * pi / 40"
    unfolding spec_pitch_def f fst_conv snd_conv r d by (simp add: spec_pitch_scale_def)
qed

lemma tilted_hand_facts:
  "length tilted_hand = 21" "zone_of tilted_hand = VISUALIZER"
  "spec_yaw tilted_hand = 9 * pi / 10" "spec_pitch tilted_hand = 3 * pi / 40"
  "hand_screen_x tilted_hand = 320" "hand_screen_y tilted_hand = 180"
proof -
  show "length tilted_hand = 21"
    by (simp add: tilted_hand_def example_hand_length)
  show "zone_of tilted_hand = VISUALIZER"
    by (simp add: tilted_hand_def example_hand_nth zone_visualizer_iff)
  have c: "lm_x (tilted_hand ! 9) - lm_x (tilted_hand ! 0) = 1 / 4"
    "lm_y (tilted_hand ! 9) - lm_y (tilted_hand ! 0) = 1 / 4"
    "lm_z (tilted_hand ! 9) - lm_z (tilted_hand ! 0) = 0" "(0::real) < 1 / 4"
    by (simp_all add: tilted_hand_def example_hand_nth)
  show "spec_yaw tilted_hand = 9 * pi / 10"
    using c by (rule spec_angles_diagonal)
  show "spec_pitch tilted_hand = 3 * pi / 40"
    using c by (rule spec_angles_diagonal)
  show "hand_screen_x tilted_hand = 320"
    by (simp add: tilted_hand_def example_hand_nth hand_screen_x_def py_int_def WIDTH_def)
  show "hand_screen_y tilted_hand = 180"
    by (simp add: tilted_hand_def example_hand_nth hand_screen_y_def py_int_def HEIGHT_def)
qed

lemma list3_update: "length xs = 3 \<Longrightarrow> xs[0 := a, 1 := b, 2 := c] = [a, b, c]"
  by (auto simp: length_Suc_conv numeral_3_eq_3 numeral_2_eq_2)

lemma upt_0_3: "[0..<3] = [0, 1, 2]"
  by (simp add: numeral_3_eq_3 upt_rec)

lemma upt_0_2: "[0..<2] = [0, 1]"
  by (simp add: numeral_2_eq_2 upt_rec)

lemma smooth3:
  assumes "length sm = 3"
  shows "smooth 3 f raw sm =
     [smooth_step f (raw ! 0) (sm ! 0), smooth_step f (raw ! 1) (sm ! 1),
      smooth_step f (raw ! 2) (sm ! 2)]"
proof -
  from assms obtain a b c where sm: "sm = [a, b, c]"
    by (auto simp: length_Suc_conv numeral_3_eq_3)
  show ?thesis
    unfolding smooth_def upt_0_3 sm by simp
qed

lemma smooth2:
  assumes "length sm = 2"
  shows "smooth 2 f raw sm =
     [smooth_step f (raw ! 0) (sm ! 0), smooth_step f (raw ! 1) (sm ! 1)]"
proof -
  from assms obtain a b where sm: "sm = [a, b]"
    by (auto simp: length_Suc_conv numeral_2_eq_2)
  show ?thesis
    unfolding smooth_def upt_0_2 sm by simp
qed

lemma less3_cases: "i < (3::nat) \<Longrightarrow> i = 0 \<or> i = 1 \<or> i = 2"
  by arith

lemma less2_cases: "i < (2::nat) \<Longrightarrow> i = 0 \<or> i = 1"
  by arith

lemma smooth3_nth:
  "length sm = 3 \<Longrightarrow> i < 3 \<Longrightarrow> smooth 3 f raw sm ! i = smooth_step f (raw ! i) (sm ! i)"
  using less3_cases [of i] by (auto simp: smooth3)

lemma smooth2_nth:
  "length sm = 2 \<Longrightarrow> i < 2 \<Longrightarrow> smooth 2 f raw sm ! i = smooth_step f (raw ! i) (sm ! i)"
  using less2_cases [of i] by (auto simp: smooth2)

lemma debounce_keeps:
  "cube_rotation (fst (debounce dir t s)) = cube_rotation s \<and>
   cube_position (fst (debounce dir t s)) = cube_position s \<and>
   puck_position (fst (debounce dir t s)) = puck_position s \<and>
   previous_hand_position (fst (debounce dir t s)) = previous_hand_position s \<and>
   smoothed_rotation (fst (debounce dir t s)) = smoothed_rotation s \<and>
   smoothed_position (fst (debounce dir t s)) = smoothed_position s \<and>
   smoothed_puck_position (fst (debounce dir t s)) = smoothed_puck_position s"
  using debounce_cases [of dir t s] by auto

lemma process_hand_keeps:
  assumes "process_hand s (lms, t) = Inr (s', cs)"
  shows "9 < length lms \<and>
         smoothed_rotation s' = smoothed_rotation s \<and>
         smoothed_position s' = smoothed_position s \<and>
         smoothed_puck_position s' = smoothed_puck_position s \<and>
         length (cube_rotation s') = length (cube_rotation s) \<and>
         length (cube_position s') = length (cube_position s) \<and>
         length (puck_position s') = length (puck_position s) \<and>
         (zone_of lms = COMMAND \<longrightarrow>
            cube_rotation s' = cube_rotation s \<and> cube_position s' = cube_position s) \<and>
         (zone_of lms = VISUALIZER \<longrightarrow>
            puck_position s' = puck_position s \<and>
            cube_rotation s' =
              (cube_rotation s)[0 := 0, 1 := spec_yaw lms * ROTATION_SENSITIVITY, 2 := 0])"
proof -
  from process_hand_cases [OF assms]
  consider (v) "9 < length lms" "zone_of lms = VISUALIZER"
      "s' = cube_update s lms (spec_yaw lms)"
    | (c) dir palm where "9 < length lms" "zone_of lms = COMMAND"
        "s' = fst (debounce dir (real t / 1000) (puck_update s lms palm))"
    by blast
  then show ?thesis
  proof cases
    case v
    then show ?thesis by (simp add: cube_update_def)
  next
    case c
    then show ?thesis
      using debounce_keeps [of dir "real t / 1000" "puck_update s lms palm"]
      by (simp add: puck_update_def)
  qed
qed

lemma process_hands_Cons:
  assumes "process_hands s (h # hs) = Inr (s', cs)"
  obtains s1 cs1 cs2 where "process_hand s h = Inr (s1, cs1)"
    and "process_hands s1 hs = Inr (s', cs2)" and "cs = cs1 @ cs2"
  using assms by (auto split: sum.splits prod.splits)

lemma process_hands_keeps:
  "process_hands s hs = Inr (s', cs) \<Longrightarrow>
     (\<forall>h\<in>set hs. 9 < length (fst h)) \<and>
     smoothed_rotation s' = smoothed_rotation s \<and>
     smoothed_position s' = smoothed_position s \<and>
     smoothed_puck_position s' = smoothed_puck_position s \<and>
     length (cube_rotation s') = length (cube_rotation s) \<and>
     length (cube_position s') = length (cube_position s) \<and>
     length (puck_position s') = length (puck_position s) \<and>
     ((\<forall>h\<in>set hs. zone_of (fst h) = COMMAND) \<longrightarrow>
        cube_rotation s' = cube_rotation s \<and> cube_position s' = cube_position s) \<and>
     ((\<forall>h\<in>set hs. zone_of (fst h) = VISUALIZER) \<longrightarrow> puck_position s' = puck_position s)"
proof (induction hs arbitrary: s s' cs)
  case Nil
  then show ?case by simp
next
  case (Cons h hs)
  from Cons.prems obtain s1 cs1 cs2 where
    a: "process_hand s h = Inr (s1, cs1)" and b: "process_hands s1 hs = Inr (s', cs2)"
    by (rule process_hands_Cons)
  obtain lms t where h: "h = (lms, t)" by (cases h)
  from process_hand_keeps [OF a [unfolded h]] Cons.IH [OF b] h
  show ?case by auto
qed

lemma process_hands_cube_rotation:
  "process_hands s hs = Inr (s', cs) \<Longrightarrow> length (cube_rotation s) = 3 \<Longrightarrow>
     cube_rotation s' =
       (if filter (\<lambda>h. zone_of (fst h) = VISUALIZER) hs = [] then cube_rotation s
        else [0, spec_yaw (fst (last (filter (\<lambda>h. zone_of (fst h) = VISUALIZER) hs)))
                   * ROTATION_SENSITIVITY, 0])"
proof (induction hs arbitrary: s s' cs)
  case Nil
  then show ?case by simp
next
  case (Cons h hs)
  from Cons.prems(1) obtain s1 cs1 cs2 where
    a: "process_hand s h = Inr (s1, cs1)" and b: "process_hands s1 hs = Inr (s', cs2)"
    by (rule process_hands_Cons)
  obtain lms t where h: "h = (lms, t)" by (cases h)
  note k = process_hand_keeps [OF a [unfolded h]]
  from k Cons.prems(2) have len: "length (cube_rotation s1) = 3" by simp
  note ih = Cons.IH [OF b len]
  show ?case
  proof (cases "zone_of lms")
    case VISUALIZER
    from k VISUALIZER have "cube_rotation s1 =
        (cube_rotation s)[0 := 0, 1 := spec_yaw lms * ROTATION_SENSITIVITY, 2 := 0]"
      by blast
    also have "\<dots> = [0, spec_yaw lms * ROTATION_SENSITIVITY, 0]"
      using Cons.prems(2) by (rule list3_update)
    finally have "cube_rotation s1 = [0, spec_yaw lms * ROTATION_SENSITIVITY, 0]" .
    with ih VISUALIZER h show ?thesis by simp
  next
    case COMMAND
    with k have "cube_rotation s1 = cube_rotation s" by simp
    with ih COMMAND h show ?thesis by simp
  qed
qed

lemma tick_split:
  assumes "tick s frame = Inr (s', cs)"
  obtains s1 where "process_hands (s\<lparr>active_control := None\<rparr>) frame = Inr (s1, cs)"
    and "s' = apply_smoothing s1"
  using assms by (auto simp: tick_def split: sum.splits prod.splits)

lemma apply_smoothing_raw:
  "cube_rotation (apply_smoothing s) = cube_rotation s \<and>
   cube_position (apply_smoothing s) = cube_position s \<and>
   puck_position (apply_smoothing s) = puck_position s \<and>
   last_gesture_time (apply_smoothing s) = last_gesture_time s \<and>
   active_control (apply_smoothing s) = active_control s \<and>
   previous_hand_position (apply_smoothing s) = previous_hand_position s"
  by (simp add: apply_smoothing_def)

lemma classify_direction_props:
  "((classify_direction (dx, dy) = Some RIGHT \<or> classify_direction (dx, dy) = Some LEFT)
      \<longrightarrow> \<bar>dx\<bar> > 1.5 * \<bar>dy\<bar>) \<and>
   ((classify_direction (dx, dy) = Some UP \<or> classify_direction (dx, dy) = Some DOWN)
      \<longrightarrow> \<bar>dy\<bar> > 1.5 * \<bar>dx\<bar>) \<and>
   (\<bar>dx\<bar> = \<bar>dy\<bar> \<longrightarrow> classify_direction (dx, dy) = None) \<and>
   (\<bar>dx\<bar> > 1.5 * \<bar>dy\<bar> \<and> dx > GESTURE_THRESHOLD \<longrightarrow> classify_direction (dx, dy) = Some RIGHT) \<and>
   (\<bar>dx\<bar> > 1.5 * \<bar>dy\<bar> \<and> dx < - GESTURE_THRESHOLD \<longrightarrow> classify_direction (dx, dy) = Some LEFT) \<and>
   (\<bar>dx\<bar> > 1.5 * \<bar>dy\<bar> \<and> \<bar>dx\<bar> \<le> GESTURE_THRESHOLD \<longrightarrow> classify_direction (dx, dy) = None) \<and>
   (\<bar>dy\<bar> > 1.5 * \<bar>dx\<bar> \<and> \<bar>dy\<bar> \<le> GESTURE_THRESHOLD \<longrightarrow> classify_direction (dx, dy) = None)"
  by (auto simp: classify_direction_def Let_def GESTURE_THRESHOLD_def split: if_splits)

section \<open>Gesture classifier: the movement gate\<close>

text \<open>
  Claim C3. When a previous palm position exists and its Euclidean distance to the current
  palm position (landmark 9) is below the movement threshold, the classifier returns no
  direction, whatever the fingertip points at, and returns the current palm position as the
  position for the next call.
\<close>

theorem stationary_hand_yields_none:
  assumes "length lms = 21"
    and "norm2 (lm_x (lms ! 9) - fst p, lm_y (lms ! 9) - snd p) < MOVEMENT_THRESHOLD"
  shows "detect_hand_direction lms (Some p) = Inr (None, (lm_x (lms ! 9), lm_y (lms ! 9)))"
  using assms by (simp add: detect_hand_direction_def)

text \<open>
  A hand whose fingertip points far to the right: stationary it yields no direction, while
  the same landmarks without a previous position yield \<open>RIGHT\<close>.
\<close>

theorem stationary_hand_yields_none_witness:
  "detect_hand_direction
     (example_hand \<lparr>lm_x = 0.5, lm_y = 0.5, lm_z = 0\<rparr> \<lparr>lm_x = 0.9, lm_y = 0.5, lm_z = 0\<rparr>
        \<lparr>lm_x = 0.6, lm_y = 0.4, lm_z = 0\<rparr>) (Some (0.6, 0.4))
   = Inr (None, (0.6, 0.4)) \<and>
   detect_hand_direction
     (example_hand \<lparr>lm_x = 0.5, lm_y = 0.5, lm_z = 0\<rparr> \<lparr>lm_x = 0.9, lm_y = 0.5, lm_z = 0\<rparr>
        \<lparr>lm_x = 0.6, lm_y = 0.4, lm_z = 0\<rparr>) None
   = Inr (Some RIGHT, (0.6, 0.4))"
  using stationary_hand_yields_none [of "example_hand \<lparr>lm_x = 0.5, lm_y = 0.5, lm_z = 0\<rparr>
      \<lparr>lm_x = 0.9, lm_y = 0.5, lm_z = 0\<rparr> \<lparr>lm_x = 0.6, lm_y = 0.4, lm_z = 0\<rparr>" "(0.6, 0.4)"]
  by (simp add: example_hand_length example_hand_nth norm2_def MOVEMENT_THRESHOLD_def
      detect_hand_direction_def classify_direction_def GESTURE_THRESHOLD_def)

section \<open>Zone router\<close>

text \<open>
  Claim C6. A hand is routed to the visualizer exactly when its palm x-coordinate is
  strictly left of the midline (pixel 640, that is a normalized coordinate below one half),
  and to the command zone otherwise; a palm exactly on the midline goes to the command zone.
\<close>

theorem zone_router_midline:
  "(zone_of lms = VISUALIZER \<longleftrightarrow> hand_screen_x lms < screen_center_x) \<and>
   (zone_of lms = COMMAND \<longleftrightarrow> \<not> hand_screen_x lms < screen_center_x) \<and>
   screen_center_x = 640 \<and>
   (zone_of lms = VISUALIZER \<longleftrightarrow> lm_x (lms ! 9) < 1 / 2) \<and>
   (zone_of lms = COMMAND \<longleftrightarrow> 1 / 2 \<le> lm_x (lms ! 9)) \<and>
   (hand_screen_x lms = screen_center_x \<longrightarrow> zone_of lms = COMMAND) \<and>
   (lm_x (lms ! 9) = 1 / 2 \<longrightarrow> zone_of lms = COMMAND)"
proof -
  have a: "zone_of lms = COMMAND \<longleftrightarrow> zone_of lms \<noteq> VISUALIZER"
    by (cases "zone_of lms") simp_all
  have b: "zone_of lms = VISUALIZER \<longleftrightarrow> hand_screen_x lms < screen_center_x"
    by (simp add: zone_of_def)
  have c: "screen_center_x = 640"
    by (simp add: screen_center_x_def WIDTH_def)
  have e: "hand_screen_x lms = screen_center_x \<longrightarrow> zone_of lms = COMMAND"
    unfolding a b by simp
  have f: "lm_x (lms ! 9) = 1 / 2 \<longrightarrow> zone_of lms = COMMAND"
    unfolding a zone_visualizer_iff by simp
  have g: "zone_of lms = COMMAND \<longleftrightarrow> 1 / 2 \<le> lm_x (lms ! 9)"
    unfolding a zone_visualizer_iff by auto
  have h: "zone_of lms = COMMAND \<longleftrightarrow> \<not> hand_screen_x lms < screen_center_x"
    unfolding a b by simp
  show ?thesis
    using b c e f g h zone_visualizer_iff by blast
qed

text \<open>A palm exactly on the midline, and one just left of it.\<close>

theorem zone_router_midline_witness:
  "zone_of (example_hand \<lparr>lm_x = 0.5, lm_y = 0.5, lm_z = 0\<rparr> \<lparr>lm_x = 0.5, lm_y = 0.3, lm_z = 0\<rparr>
      \<lparr>lm_x = 0.5, lm_y = 0.5, lm_z = 0\<rparr>) = COMMAND \<and>
   zone_of (example_hand \<lparr>lm_x = 0.5, lm_y = 0.5, lm_z = 0\<rparr> \<lparr>lm_x = 0.5, lm_y = 0.3, lm_z = 0\<rparr>
      \<lparr>lm_x = 0.499, lm_y = 0.5, lm_z = 0\<rparr>) = VISUALIZER"
  using zone_router_midline [of "example_hand \<lparr>lm_x = 0.5, lm_y = 0.5, lm_z = 0\<rparr>
      \<lparr>lm_x = 0.5, lm_y = 0.3, lm_z = 0\<rparr> \<lparr>lm_x = 0.5, lm_y = 0.5, lm_z = 0\<rparr>"]
    zone_router_midline [of "example_hand \<lparr>lm_x = 0.5, lm_y = 0.5, lm_z = 0\<rparr>
      \<lparr>lm_x = 0.5, lm_y = 0.3, lm_z = 0\<rparr> \<lparr>lm_x = 0.499, lm_y = 0.5, lm_z = 0\<rparr>"]
  by (simp add: example_hand_nth)

section \<open>Volume commands\<close>

text \<open>
  Claim C10. With a connected client whose current playback reports device volume \<open>v\<close> in
  \<open>[0, 100]\<close>, volume-up requests \<open>min (v + 10) 100\<close> and volume-down requests
  \<open>max (v - 10) 0\<close>; both requests stay in \<open>[0, 100]\<close>, and away from the clamp the step
  is exactly 10.
\<close>

theorem volume_step_clamped:
  assumes "sp = Some client" and "current_playback client = Returns (Some current)"
    and "volume_percent current = Some v" and "0 \<le> v" and "v \<le> 100"
  shows "volume_up sp = Some (min (v + 10) 100) \<and>
         volume_down sp = Some (max (v - 10) 0) \<and>
         0 \<le> min (v + 10) 100 \<and> min (v + 10) 100 \<le> 100 \<and>
         0 \<le> max (v - 10) 0 \<and> max (v - 10) 0 \<le> 100 \<and>
         (v \<le> 90 \<longrightarrow> min (v + 10) 100 - v = 10) \<and>
         (10 \<le> v \<longrightarrow> v - max (v - 10) 0 = 10)"
  using assms by (simp add: volume_up_def volume_down_def)

text \<open>Volumes 50 (a plain step both ways), 95 (clamped at 100) and 5 (clamped at 0).\<close>

theorem volume_step_clamped_witness:
  "volume_up (Some \<lparr>current_playback = Returns (Some \<lparr>volume_percent = Some 50\<rparr>)\<rparr>) = Some 60 \<and>
   volume_down (Some \<lparr>current_playback = Returns (Some \<lparr>volume_percent = Some 50\<rparr>)\<rparr>) = Some 40 \<and>
   volume_up (Some \<lparr>current_playback = Returns (Some \<lparr>volume_percent = Some 95\<rparr>)\<rparr>) = Some 100 \<and>
   volume_down (Some \<lparr>current_playback = Returns (Some \<lparr>volume_percent = Some 5\<rparr>)\<rparr>) = Some 0"
  using volume_step_clamped [of "Some \<lparr>current_playback = Returns (Some \<lparr>volume_percent = Some 50\<rparr>)\<rparr>"
      "\<lparr>current_playback = Returns (Some \<lparr>volume_percent = Some 50\<rparr>)\<rparr>" "\<lparr>volume_percent = Some 50\<rparr>" 50]
    volume_step_clamped [of "Some \<lparr>current_playback = Returns (Some \<lparr>volume_percent = Some 95\<rparr>)\<rparr>"
      "\<lparr>current_playback = Returns (Some \<lparr>volume_percent = Some 95\<rparr>)\<rparr>" "\<lparr>volume_percent = Some 95\<rparr>" 95]
    volume_step_clamped [of "Some \<lparr>current_playback = Returns (Some \<lparr>volume_percent = Some 5\<rparr>)\<rparr>"
      "\<lparr>current_playback = Returns (Some \<lparr>volume_percent = Some 5\<rparr>)\<rparr>" "\<lparr>volume_percent = Some 5\<rparr>" 5]
  by simp

section \<open>Gesture classifier: dominant axis and threshold\<close>

text \<open>
  Claim C2. Once the movement gate is passed (no previous position, or a movement of at least
  the movement threshold), the classifier works on the pointing vector \<open>(dx, dy)\<close> =
  fingertip minus wrist: a horizontal direction is returned only if \<open>\<bar>dx\<bar> > 1.5 \<bar>dy\<bar>\<close>, a
  vertical one only if \<open>\<bar>dy\<bar> > 1.5 \<bar>dx\<bar>\<close>; with \<open>\<bar>dx\<bar> = \<bar>dy\<bar>\<close> the result is no
  direction; with the horizontal axis dominant the result is \<open>RIGHT\<close> above the gesture
  threshold and \<open>LEFT\<close> below its negation; a dominant component that does not exceed the
  threshold gives no direction.
\<close>

theorem classifier_dominant_axis:
  assumes "length lms = 21"
    and "prev = None \<or>
         (\<exists>p. prev = Some p \<and>
              MOVEMENT_THRESHOLD \<le> norm2 (lm_x (lms ! 9) - fst p, lm_y (lms ! 9) - snd p))"
    and "dx = lm_x (lms ! 8) - lm_x (lms ! 0)"
    and "dy = lm_y (lms ! 8) - lm_y (lms ! 0)"
  shows "\<exists>g. detect_hand_direction lms prev = Inr (g, (lm_x (lms ! 9), lm_y (lms ! 9))) \<and>
     ((g = Some RIGHT \<or> g = Some LEFT) \<longrightarrow> \<bar>dx\<bar> > 1.5 * \<bar>dy\<bar>) \<and>
     ((g = Some UP \<or> g = Some DOWN) \<longrightarrow> \<bar>dy\<bar> > 1.5 * \<bar>dx\<bar>) \<and>
     (\<bar>dx\<bar> = \<bar>dy\<bar> \<longrightarrow> g = None) \<and>
     (\<bar>dx\<bar> > 1.5 * \<bar>dy\<bar> \<and> dx > GESTURE_THRESHOLD \<longrightarrow> g = Some RIGHT) \<and>
     (\<bar>dx\<bar> > 1.5 * \<bar>dy\<bar> \<and> dx < - GESTURE_THRESHOLD \<longrightarrow> g = Some LEFT) \<and>
     (\<bar>dx\<bar> > 1.5 * \<bar>dy\<bar> \<and> \<bar>dx\<bar> \<le> GESTURE_THRESHOLD \<longrightarrow> g = None) \<and>
     (\<bar>dy\<bar> > 1.5 * \<bar>dx\<bar> \<and> \<bar>dy\<bar> \<le> GESTURE_THRESHOLD \<longrightarrow> g = None)"
proof -
  have "detect_hand_direction lms prev
          = Inr (classify_direction (dx, dy), (lm_x (lms ! 9), lm_y (lms ! 9)))"
    using assms by (auto simp: detect_hand_direction_def Let_def)
  then show ?thesis
    using classify_direction_props [of dx dy] by blast
qed

text \<open>
  The pointing vectors \<open>(0.2, 0.05)\<close>, \<open>(-0.2, 0.05)\<close>, \<open>(0.2, 0.2)\<close> and the sub-threshold
  \<open>(0.1, 0)\<close>.
\<close>

theorem classifier_dominant_axis_witness:
  "detect_hand_direction
     (example_hand \<lparr>lm_x = 0.5, lm_y = 0.5, lm_z = 0\<rparr> \<lparr>lm_x = 0.7, lm_y = 0.55, lm_z = 0\<rparr>
        \<lparr>lm_x = 0.6, lm_y = 0.4, lm_z = 0\<rparr>) None = Inr (Some RIGHT, (0.6, 0.4)) \<and>
   detect_hand_direction
     (example_hand \<lparr>lm_x = 0.5, lm_y = 0.5, lm_z = 0\<rparr> \<lparr>lm_x = 0.3, lm_y = 0.55, lm_z = 0\<rparr>
        \<lparr>lm_x = 0.6, lm_y = 0.4, lm_z = 0\<rparr>) None = Inr (Some LEFT, (0.6, 0.4)) \<and>
   detect_hand_direction
     (example_hand \<lparr>lm_x = 0.5, lm_y = 0.5, lm_z = 0\<rparr> \<lparr>lm_x = 0.7, lm_y = 0.7, lm_z = 0\<rparr>
        \<lparr>lm_x = 0.6, lm_y = 0.4, lm_z = 0\<rparr>) None = Inr (None, (0.6, 0.4)) \<and>
   detect_hand_direction
     (example_hand \<lparr>lm_x = 0.5, lm_y = 0.5, lm_z = 0\<rparr> \<lparr>lm_x = 0.6, lm_y = 0.5, lm_z = 0\<rparr>
        \<lparr>lm_x = 0.6, lm_y = 0.4, lm_z = 0\<rparr>) None = Inr (None, (0.6, 0.4))"
  using classifier_dominant_axis [of "example_hand \<lparr>lm_x = 0.5, lm_y = 0.5, lm_z = 0\<rparr>
        \<lparr>lm_x = 0.7, lm_y = 0.55, lm_z = 0\<rparr> \<lparr>lm_x = 0.6, lm_y = 0.4, lm_z = 0\<rparr>" None "0.2" "0.05"]
    classifier_dominant_axis [of "example_hand \<lparr>lm_x = 0.5, lm_y = 0.5, lm_z = 0\<rparr>
        \<lparr>lm_x = 0.3, lm_y = 0.55, lm_z = 0\<rparr> \<lparr>lm_x = 0.6, lm_y = 0.4, lm_z = 0\<rparr>" None "- 0.2" "0.05"]
    classifier_dominant_axis [of "example_hand \<lparr>lm_x = 0.5, lm_y = 0.5, lm_z = 0\<rparr>
        \<lparr>lm_x = 0.7, lm_y = 0.7, lm_z = 0\<rparr> \<lparr>lm_x = 0.6, lm_y = 0.4, lm_z = 0\<rparr>" None "0.2" "0.2"]
    classifier_dominant_axis [of "example_hand \<lparr>lm_x = 0.5, lm_y = 0.5, lm_z = 0\<rparr>
        \<lparr>lm_x = 0.6, lm_y = 0.5, lm_z = 0\<rparr> \<lparr>lm_x = 0.6, lm_y = 0.4, lm_z = 0\<rparr>" None "0.1" "0"]
  by (simp add: example_hand_length example_hand_nth GESTURE_THRESHOLD_def)

section \<open>Command debouncer\<close>

text \<open>
  The cooldown of the loop is a strict comparison: a qualifying gesture exactly one cooldown
  interval (500 ms) after the last accepted command is rejected, although the elapsed time
  is at least the cooldown.
\<close>

theorem cooldown_boundary_counterexample:
  "Some UP \<noteq> None \<and>
   real 500 / 1000 - last_gesture_time initial_state \<ge> GESTURE_COOLDOWN \<and>
   \<not> accepts (Some UP) (real 500 / 1000) (last_gesture_time initial_state) \<and>
   debounce (Some UP) (real 500 / 1000) initial_state = (initial_state, [])"
  by (simp add: accepts_def debounce_def initial_state_def GESTURE_COOLDOWN_def)

text \<open>
  Claim C1, amended. A classified gesture is accepted exactly when it is not \<open>None\<close> and the
  elapsed time since the last accepted command is strictly greater than the cooldown of
  0.5 s; after an accepted command at time 0 a gesture at 0.3 s is rejected and one at 0.6 s
  is accepted; a rejected gesture leaves the state as it is, and over a whole tick the
  last-accepted timestamp changes only if a command was dispatched.
\<close>

theorem debounce_strict_cooldown:
  assumes "debounce dir t s = (s', cs)"
  shows "(cs \<noteq> [] \<longleftrightarrow> dir \<noteq> None \<and> t - last_gesture_time s > GESTURE_COOLDOWN) \<and>
         GESTURE_COOLDOWN = 1 / 2 \<and>
         (cs \<noteq> [] \<longrightarrow>
            last_gesture_time s' = t \<and> active_control s' = dir \<and> cs = [dispatch (the dir)]) \<and>
         (cs = [] \<longrightarrow> s' = s) \<and>
         (last_gesture_time s = 0 \<and> dir \<noteq> None \<and> t = 3 / 10 \<longrightarrow> cs = []) \<and>
         (last_gesture_time s = 0 \<and> dir \<noteq> None \<and> t = 6 / 10 \<longrightarrow> cs \<noteq> []) \<and>
         (\<forall>frame s2 cs2. tick s frame = Inr (s2, cs2) \<longrightarrow>
            last_gesture_time s2 \<noteq> last_gesture_time s \<longrightarrow> (\<exists>d. dispatch d \<in> set cs2))"
proof -
  have 1: "\<forall>frame s2 cs2. tick s frame = Inr (s2, cs2) \<longrightarrow>
          last_gesture_time s2 \<noteq> last_gesture_time s \<longrightarrow> (\<exists>d. dispatch d \<in> set cs2)"
    using tick_time by blast
  have 2: "GESTURE_COOLDOWN = 1 / 2"
    by (simp add: GESTURE_COOLDOWN_def)
  have 3: "cs \<noteq> [] \<longleftrightarrow> dir \<noteq> None \<and> t - last_gesture_time s > GESTURE_COOLDOWN"
    using assms by (cases dir) (auto simp: debounce_def accepts_def split: if_splits)
  have 4: "cs \<noteq> [] \<longrightarrow>
            last_gesture_time s' = t \<and> active_control s' = dir \<and> cs = [dispatch (the dir)]"
    using assms by (cases dir) (auto simp: debounce_def accepts_def split: if_splits)
  have 5: "cs = [] \<longrightarrow> s' = s"
    using assms by (cases dir) (auto simp: debounce_def accepts_def split: if_splits)
  have 6: "last_gesture_time s = 0 \<and> dir \<noteq> None \<and> t = 3 / 10 \<longrightarrow> cs = []"
  proof (intro impI, elim conjE)
    assume "last_gesture_time s = 0" and "t = 3 / 10"
    then have "\<not> t - last_gesture_time s > GESTURE_COOLDOWN"
      by (simp add: GESTURE_COOLDOWN_def)
    with 3 show "cs = []" by blast
  qed
  have 7: "last_gesture_time s = 0 \<and> dir \<noteq> None \<and> t = 6 / 10 \<longrightarrow> cs \<noteq> []"
  proof (intro impI, elim conjE)
    assume "last_gesture_time s = 0" and "t = 6 / 10" and "dir \<noteq> None"
    then have "dir \<noteq> None \<and> t - last_gesture_time s > GESTURE_COOLDOWN"
      by (simp add: GESTURE_COOLDOWN_def)
    with 3 show "cs \<noteq> []" by blast
  qed
  from 1 2 3 4 5 6 7 show ?thesis by blast
qed

text \<open>From the initial state: \<open>UP\<close> at 0.6 s is accepted, at 0.3 s rejected; \<open>None\<close> never.\<close>

theorem debounce_strict_cooldown_witness:
  "debounce (Some UP) (6 / 10) initial_state
     = (initial_state\<lparr>active_control := Some UP, last_gesture_time := 6 / 10\<rparr>, [VolumeUpCall]) \<and>
   debounce (Some UP) (3 / 10) initial_state = (initial_state, []) \<and>
   debounce None (6 / 10) initial_state = (initial_state, []) \<and>
   6 / 10 - last_gesture_time initial_state > GESTURE_COOLDOWN \<and>
   \<not> 3 / 10 - last_gesture_time initial_state > GESTURE_COOLDOWN"
proof -
  have a: "debounce (Some UP) (6 / 10) initial_state
     = (initial_state\<lparr>active_control := Some UP, last_gesture_time := 6 / 10\<rparr>, [VolumeUpCall])"
    by (simp add: debounce_def accepts_def initial_state_def GESTURE_COOLDOWN_def)
  have b: "debounce (Some UP) (3 / 10) initial_state = (initial_state, [])"
    by (simp add: debounce_def accepts_def initial_state_def GESTURE_COOLDOWN_def)
  have c: "debounce None (6 / 10) initial_state = (initial_state, [])"
    by (simp add: debounce_def accepts_def)
  from debounce_strict_cooldown [OF a] debounce_strict_cooldown [OF b] a b c
  show ?thesis by blast
qed

section \<open>Orientation estimator\<close>

text \<open>
  Claim C7. On every 21-point landmark set the estimator returns an angle triple: the
  divisor \<open>norm + 0.0001\<close> is positive for every vector, so the normalisation never divides
  by zero, also when the forward vector has length zero.
\<close>

theorem get_hand_rotation_total:
  assumes "length lms = 21"
  shows "(\<exists>angle_x angle_y angle_z. get_hand_rotation lms = Inr (angle_x, angle_y, angle_z)) \<and>
         (\<forall>v. 0 < norm3 v + 0.0001 \<and> normalize3 v \<noteq> Inl NonFinite)"
proof -
  have "\<forall>v. 0 < norm3 v + 0.0001 \<and> normalize3 v \<noteq> Inl NonFinite"
  proof
    fix v
    have "0 < norm3 v + 0.0001"
      using norm3_nonneg [of v] by simp
    then show "0 < norm3 v + 0.0001 \<and> normalize3 v \<noteq> Inl NonFinite"
      by (simp add: normalize3_Inr)
  qed
  moreover have "get_hand_rotation lms = Inr (spec_pitch lms, spec_yaw lms, 0)"
    using assms by (simp add: get_hand_rotation_value)
  then have "\<exists>angle_x angle_y angle_z. get_hand_rotation lms = Inr (angle_x, angle_y, angle_z)"
    by blast
  ultimately show ?thesis by blast
qed

text \<open>A hand whose wrist and middle-finger base coincide: the forward vector is zero.\<close>

theorem get_hand_rotation_total_witness:
  "\<exists>angle_x angle_y angle_z.
     get_hand_rotation (example_hand \<lparr>lm_x = 0.3, lm_y = 0.5, lm_z = 0\<rparr>
        \<lparr>lm_x = 0.3, lm_y = 0.2, lm_z = 0\<rparr> \<lparr>lm_x = 0.3, lm_y = 0.5, lm_z = 0\<rparr>)
       = Inr (angle_x, angle_y, angle_z)"
  using get_hand_rotation_total [of "example_hand \<lparr>lm_x = 0.3, lm_y = 0.5, lm_z = 0\<rparr>
        \<lparr>lm_x = 0.3, lm_y = 0.2, lm_z = 0\<rparr> \<lparr>lm_x = 0.3, lm_y = 0.5, lm_z = 0\<rparr>"]
  by (simp add: example_hand_length)

text \<open>
  Claim C8. On every 21-point landmark set the estimator returns the pitch, the yaw and the
  roll of the specification: yaw is \<open>atan2(forward.x, -forward.z)\<close> times a multiplier above
  1, pitch is \<open>atan2(forward.y, sqrt(forward.x\<^sup>2 + forward.z\<^sup>2))\<close> times 0.3, roll is 0, with
  \<open>forward\<close> the epsilon-normalised vector from landmark 0 to landmark 9.
\<close>

theorem get_hand_rotation_refines_spec:
  assumes "length lms = 21"
  shows "get_hand_rotation lms = Inr (spec_pitch lms, spec_yaw lms, 0) \<and>
         1 < spec_yaw_multiplier \<and> spec_pitch_scale = 0.3"
  using assms
  by (simp add: get_hand_rotation_def Let_def normalize3_Inr spec_pitch_def spec_yaw_def
      spec_forward_def spec_yaw_multiplier_def spec_pitch_scale_def)

text \<open>A hand pointing along the x axis: yaw is \<open>1.8 \<cdot> \<pi>/2\<close>, pitch and roll are 0.\<close>

theorem get_hand_rotation_refines_spec_witness:
  "get_hand_rotation (example_hand \<lparr>lm_x = 0, lm_y = 0, lm_z = 0\<rparr>
        \<lparr>lm_x = 0, lm_y = 0, lm_z = 0\<rparr> \<lparr>lm_x = 0.25, lm_y = 0, lm_z = 0\<rparr>)
     = Inr (0, 9 * pi / 10, 0)"
  using get_hand_rotation_refines_spec [of "example_hand \<lparr>lm_x = 0, lm_y = 0, lm_z = 0\<rparr>
        \<lparr>lm_x = 0, lm_y = 0, lm_z = 0\<rparr> \<lparr>lm_x = 0.25, lm_y = 0, lm_z = 0\<rparr>"]
  by (simp add: example_hand_length example_hand_nth spec_pitch_def spec_yaw_def
      spec_forward_def spec_yaw_multiplier_def spec_pitch_scale_def norm3_def arctan2_def
      Let_def real_sqrt_divide)

section \<open>Orientation signal\<close>

text \<open>
  A visualizer hand whose estimated pitch is \<open>3\<pi>/40\<close>: after the tick the tilt component of
  the cube rotation is 0, not the estimator's pitch, while the yaw \<open>9\<pi>/10\<close> is applied with the
  rotation sensitivity.
\<close>

theorem tilt_locked_counterexample:
  "zone_of tilted_hand = VISUALIZER \<and>
   get_hand_rotation tilted_hand = Inr (3 * pi / 40, 9 * pi / 10, 0) \<and>
   3 * pi / 40 \<noteq> (0::real) \<and>
   map_sum id (cube_rotation \<circ> fst) (tick initial_state [(tilted_hand, 1000)])
     = Inr [0, 27 * pi / 25, 0]"
proof -
  have a: "get_hand_rotation tilted_hand = Inr (3 * pi / 40, 9 * pi / 10, 0)"
    by (simp add: get_hand_rotation_value tilted_hand_facts)
  have b: "tick initial_state [(tilted_hand, 1000)] =
       Inr (apply_smoothing (cube_update (initial_state\<lparr>active_control := None\<rparr>) tilted_hand (9 * pi / 10)),
            [GetHandRotation tilted_hand])"
    using tick_single_visualizer [of tilted_hand initial_state 1000]
    by (simp add: tilted_hand_facts)
  have c: "cube_rotation
        (apply_smoothing (cube_update (initial_state\<lparr>active_control := None\<rparr>) tilted_hand (9 * pi / 10)))
       = [0, 27 * pi / 25, 0]"
    by (simp add: apply_smoothing_def cube_update_def initial_state_def
        ROTATION_SENSITIVITY_def)
  have d: "3 * pi / 40 \<noteq> (0::real)"
    by simp
  show ?thesis
    using a d by (simp add: b c tilted_hand_facts)
qed

text \<open>
  Claim C5, amended. After a tick with at least one visualizer hand the cube rotation has
  tilt 0 and twist 0, and its yaw is the estimator's yaw of the last visualizer hand of the
  frame times the rotation sensitivity; the estimator's pitch is not used. After a tick
  without a visualizer hand all three components keep their value.
\<close>

theorem orientation_signal_tilt_locked:
  assumes "tick s frame = Inr (s', cs)" and "length (cube_rotation s) = 3"
  shows "((\<exists>h\<in>set frame. zone_of (fst h) = VISUALIZER) \<longrightarrow>
            cube_rotation s' ! 0 = 0 \<and> cube_rotation s' ! 2 = 0 \<and>
            (\<exists>angle_x angle_y angle_z.
               get_hand_rotation
                 (fst (last (filter (\<lambda>h. zone_of (fst h) = VISUALIZER) frame)))
                 = Inr (angle_x, angle_y, angle_z) \<and>
               cube_rotation s' ! 1 = angle_y * ROTATION_SENSITIVITY)) \<and>
         ((\<forall>h\<in>set frame. zone_of (fst h) \<noteq> VISUALIZER) \<longrightarrow>
            cube_rotation s' = cube_rotation s)"
proof -
  from assms(1) obtain s1 where
    p: "process_hands (s\<lparr>active_control := None\<rparr>) frame = Inr (s1, cs)"
    and s': "s' = apply_smoothing s1"
    by (rule tick_split)
  let ?vis = "filter (\<lambda>h. zone_of (fst h) = VISUALIZER) frame"
  from assms(2) have len: "length (cube_rotation (s\<lparr>active_control := None\<rparr>)) = 3"
    by simp
  have rot: "cube_rotation s' =
       (if ?vis = [] then cube_rotation s
        else [0, spec_yaw (fst (last ?vis)) * ROTATION_SENSITIVITY, 0])"
    using process_hands_cube_rotation [OF p len] s'
    by (simp add: apply_smoothing_raw)
  have long: "\<forall>h\<in>set frame. 9 < length (fst h)"
    using process_hands_keeps [OF p] by blast
  have 1: "(\<forall>h\<in>set frame. zone_of (fst h) \<noteq> VISUALIZER) \<longrightarrow> cube_rotation s' = cube_rotation s"
  proof
    assume "\<forall>h\<in>set frame. zone_of (fst h) \<noteq> VISUALIZER"
    then have "?vis = []"
      by (simp add: filter_empty_conv)
    with rot show "cube_rotation s' = cube_rotation s" by simp
  qed
  have 2: "(\<exists>h\<in>set frame. zone_of (fst h) = VISUALIZER) \<longrightarrow>
            cube_rotation s' ! 0 = 0 \<and> cube_rotation s' ! 2 = 0 \<and>
            (\<exists>angle_x angle_y angle_z.
               get_hand_rotation (fst (last ?vis)) = Inr (angle_x, angle_y, angle_z) \<and>
               cube_rotation s' ! 1 = angle_y * ROTATION_SENSITIVITY)"
  proof
    assume "\<exists>h\<in>set frame. zone_of (fst h) = VISUALIZER"
    then have ne: "?vis \<noteq> []"
      by (simp add: filter_empty_conv)
    then have "last ?vis \<in> set ?vis"
      by (rule last_in_set)
    then have "last ?vis \<in> set frame"
      by simp
    with long have "9 < length (fst (last ?vis))"
      by blast
    then have g: "get_hand_rotation (fst (last ?vis))
        = Inr (spec_pitch (fst (last ?vis)), spec_yaw (fst (last ?vis)), 0)"
      by (rule get_hand_rotation_value)
    from rot ne have r: "cube_rotation s' =
        [0, spec_yaw (fst (last ?vis)) * ROTATION_SENSITIVITY, 0]"
      by simp
    have "cube_rotation s' ! 0 = 0" "cube_rotation s' ! 2 = 0"
      "cube_rotation s' ! 1 = spec_yaw (fst (last ?vis)) * ROTATION_SENSITIVITY"
      unfolding r by simp_all
    with g show "cube_rotation s' ! 0 = 0 \<and> cube_rotation s' ! 2 = 0 \<and>
            (\<exists>angle_x angle_y angle_z.
               get_hand_rotation (fst (last ?vis)) = Inr (angle_x, angle_y, angle_z) \<and>
               cube_rotation s' ! 1 = angle_y * ROTATION_SENSITIVITY)"
      by blast
  qed
  from 1 2 show ?thesis by blast
qed

text \<open>
  A tick with the tilted hand, and a tick without hands from a state whose rotation is
  \<open>[0, 1, 0]\<close>.
\<close>

theorem orientation_signal_tilt_locked_witness:
  "tick initial_state [(tilted_hand, 1000)] =
     Inr (apply_smoothing (cube_update (initial_state\<lparr>active_control := None\<rparr>) tilted_hand (9 * pi / 10)),
          [GetHandRotation tilted_hand]) \<and>
   cube_rotation
     (apply_smoothing (cube_update (initial_state\<lparr>active_control := None\<rparr>) tilted_hand (9 * pi / 10))) ! 0
     = 0 \<and>
   tick (initial_state\<lparr>cube_rotation := [0, 1, 0]\<rparr>) [] =
     Inr (apply_smoothing (initial_state\<lparr>cube_rotation := [0, 1, 0], active_control := None\<rparr>),
          []) \<and>
   cube_rotation
     (apply_smoothing (initial_state\<lparr>cube_rotation := [0, 1, 0], active_control := None\<rparr>))
     = [0, 1, 0]"
proof -
  have a: "tick initial_state [(tilted_hand, 1000)] =
       Inr (apply_smoothing (cube_update (initial_state\<lparr>active_control := None\<rparr>) tilted_hand (9 * pi / 10)),
            [GetHandRotation tilted_hand])"
    using tick_single_visualizer [of tilted_hand initial_state 1000]
    by (simp add: tilted_hand_facts)
  have la: "length (cube_rotation initial_state) = 3"
    by (simp add: initial_state_def)
  have va: "\<exists>h\<in>set [(tilted_hand, 1000::nat)]. zone_of (fst h) = VISUALIZER"
    by (simp add: tilted_hand_facts)
  have b: "tick (initial_state\<lparr>cube_rotation := [0, 1, 0]\<rparr>) [] =
     Inr (apply_smoothing (initial_state\<lparr>cube_rotation := [0, 1, 0], active_control := None\<rparr>),
          [])"
    by (simp add: tick_empty)
  have lb: "length (cube_rotation (initial_state\<lparr>cube_rotation := [0, 1, 0]\<rparr>)) = 3"
    by simp
  have vb: "\<forall>h\<in>set ([] :: (landmarks \<times> nat) list). zone_of (fst h) \<noteq> VISUALIZER"
    by simp
  from orientation_signal_tilt_locked [OF a la] va
  have 1: "cube_rotation
     (apply_smoothing (cube_update (initial_state\<lparr>active_control := None\<rparr>) tilted_hand (9 * pi / 10))) ! 0
     = 0"
    by blast
  from orientation_signal_tilt_locked [OF b lb] vb
  have 2: "cube_rotation
     (apply_smoothing (initial_state\<lparr>cube_rotation := [0, 1, 0], active_control := None\<rparr>))
     = cube_rotation (initial_state\<lparr>cube_rotation := [0, 1, 0]\<rparr>)"
    by blast
  from a b 1 2 show ?thesis by simp
qed

section \<open>Temporal smoother\<close>

lemma smooth_step_error: "raw - smooth_step f raw sm = (raw - sm) * (1 - f)"
  by (simp add: smooth_step_def algebra_simps)

lemma smooth_iter_error: "raw - smooth_iter n f raw sm = (raw - sm) * (1 - f) ^ n"
proof (induction n arbitrary: sm)
  case 0
  show ?case by simp
next
  case (Suc n)
  have "raw - smooth_iter (Suc n) f raw sm = (raw - smooth_step f raw sm) * (1 - f) ^ n"
    using Suc.IH [of "smooth_step f raw sm"] by simp
  also have "\<dots> = (raw - sm) * (1 - f) * (1 - f) ^ n"
    by (simp only: smooth_step_error)
  finally show ?case by (simp add: mult.assoc)
qed

lemma smooth_iter_no_overshoot:
  assumes "0 < f" and "f < 1"
  shows "\<bar>raw - smooth_iter (Suc n) f raw sm\<bar> \<le> \<bar>raw - smooth_iter n f raw sm\<bar> \<and>
         (sm \<le> raw \<longrightarrow> smooth_iter n f raw sm \<le> raw) \<and>
         (raw \<le> sm \<longrightarrow> raw \<le> smooth_iter n f raw sm)"
proof -
  have c0: "0 \<le> (1 - f) ^ n"
    using assms by simp
  have c1: "0 \<le> 1 - f" "1 - f \<le> 1"
    using assms by simp_all
  have e: "raw - smooth_iter n f raw sm = (raw - sm) * (1 - f) ^ n"
    by (rule smooth_iter_error)
  have es: "raw - smooth_iter (Suc n) f raw sm = (raw - sm) * (1 - f) ^ Suc n"
    by (rule smooth_iter_error)
  have "\<bar>(1 - f) ^ Suc n\<bar> = (1 - f) ^ Suc n"
    using c1 by (intro abs_of_nonneg zero_le_power)
  then have "\<bar>(raw - sm) * (1 - f) ^ Suc n\<bar> = \<bar>raw - sm\<bar> * ((1 - f) ^ n * (1 - f))"
    by (simp add: abs_mult)
  then have "\<bar>raw - smooth_iter (Suc n) f raw sm\<bar> = \<bar>raw - sm\<bar> * ((1 - f) ^ n * (1 - f))"
    unfolding es .
  also have "\<dots> \<le> \<bar>raw - sm\<bar> * ((1 - f) ^ n * 1)"
    by (intro mult_left_mono c0 c1 abs_ge_zero)
  also have "\<dots> = \<bar>raw - smooth_iter n f raw sm\<bar>"
  proof -
    have "\<bar>(1 - f) ^ n\<bar> = (1 - f) ^ n"
      using c0 by (rule abs_of_nonneg)
    then have "\<bar>(raw - sm) * (1 - f) ^ n\<bar> = \<bar>raw - sm\<bar> * ((1 - f) ^ n * 1)"
      by (simp add: abs_mult)
    then show ?thesis
      unfolding e by simp
  qed
  finally have 1: "\<bar>raw - smooth_iter (Suc n) f raw sm\<bar> \<le> \<bar>raw - smooth_iter n f raw sm\<bar>" .
  have 2: "sm \<le> raw \<longrightarrow> smooth_iter n f raw sm \<le> raw"
  proof
    assume "sm \<le> raw"
    then have "0 \<le> (raw - sm) * (1 - f) ^ n"
      using c0 by simp
    with e show "smooth_iter n f raw sm \<le> raw" by simp
  qed
  have 3: "raw \<le> sm \<longrightarrow> raw \<le> smooth_iter n f raw sm"
  proof
    assume "raw \<le> sm"
    then have "(raw - sm) * (1 - f) ^ n \<le> 0"
      using c0 by (simp add: mult_nonpos_nonneg)
    with e show "raw \<le> smooth_iter n f raw sm" by simp
  qed
  from 1 2 3 show ?thesis by blast
qed

lemma smooth_iter_converges:
  assumes "0 < f" and "f < 1"
  shows "(\<lambda>n. smooth_iter n f raw sm) \<longlonglongrightarrow> raw"
proof -
  have p: "(\<lambda>n. (1 - f) ^ n) \<longlonglongrightarrow> 0"
    using assms by (intro LIMSEQ_realpow_zero) simp_all
  have "(\<lambda>n. raw - (raw - sm) * (1 - f) ^ n) \<longlonglongrightarrow> raw - (raw - sm) * 0"
    by (intro tendsto_intros p)
  moreover have "(\<lambda>n. raw - (raw - sm) * (1 - f) ^ n) = (\<lambda>n. smooth_iter n f raw sm)"
  proof
    fix n
    show "raw - (raw - sm) * (1 - f) ^ n = smooth_iter n f raw sm"
      using smooth_iter_error [of raw n f sm] by simp
  qed
  ultimately show ?thesis by simp
qed

lemma apply_smoothing_nth:
  assumes "wf_state s"
  shows "(\<forall>i<3. smoothed_rotation (apply_smoothing s) ! i =
            smooth_step SMOOTHING_FACTOR (cube_rotation s ! i) (smoothed_rotation s ! i)) \<and>
         (\<forall>i<2. smoothed_position (apply_smoothing s) ! i =
            smooth_step POSITION_SMOOTHING (real_of_int (cube_position s ! i))
              (smoothed_position s ! i)) \<and>
         (\<forall>i<2. smoothed_puck_position (apply_smoothing s) ! i =
            smooth_step PUCK_POSITION_SMOOTHING (real_of_int (puck_position s ! i))
              (smoothed_puck_position s ! i)) \<and>
         wf_state (apply_smoothing s)"
proof -
  from assms have l: "length (cube_rotation s) = 3" "length (smoothed_rotation s) = 3"
    "length (cube_position s) = 2" "length (smoothed_position s) = 2"
    "length (puck_position s) = 2" "length (smoothed_puck_position s) = 2"
    by (simp_all add: wf_state_def)
  have 1: "\<forall>i<3. smoothed_rotation (apply_smoothing s) ! i =
            smooth_step SMOOTHING_FACTOR (cube_rotation s ! i) (smoothed_rotation s ! i)"
    by (simp add: apply_smoothing_def smooth3_nth l)
  have 2: "\<forall>i<2. smoothed_position (apply_smoothing s) ! i =
            smooth_step POSITION_SMOOTHING (real_of_int (cube_position s ! i))
              (smoothed_position s ! i)"
    by (simp add: apply_smoothing_def smooth2_nth l)
  have 3: "\<forall>i<2. smoothed_puck_position (apply_smoothing s) ! i =
            smooth_step PUCK_POSITION_SMOOTHING (real_of_int (puck_position s ! i))
              (smoothed_puck_position s ! i)"
    by (simp add: apply_smoothing_def smooth2_nth l)
  have 4: "wf_state (apply_smoothing s)"
    by (simp add: wf_state_def apply_smoothing_def smooth3 smooth2 l)
  from 1 2 3 4 show ?thesis by blast
qed

text \<open>
  Claim C4. In every tick each smoothed signal (rotation, visualizer position, command-zone
  position) becomes \<open>smoothed + (raw_target - smoothed) \<cdot> factor\<close>, with the raw target as it
  stands after the hands of the frame were processed; a frame without a hand in the relevant
  zone leaves that raw target as it was. With the raw target held constant the error
  \<open>raw - smoothed\<close> is multiplied by \<open>1 - factor\<close> per tick, so for a factor strictly
  between 0 and 1 (as the three factors of the program are) the smoothed value never passes
  the target and converges to it.
\<close>

theorem smoothing_update_and_convergence:
  assumes "tick s frame = Inr (s', cs)" and "wf_state s"
  shows "(\<forall>i<3. smoothed_rotation s' ! i =
            smoothed_rotation s ! i
              + (cube_rotation s' ! i - smoothed_rotation s ! i) * SMOOTHING_FACTOR) \<and>
         (\<forall>i<2. smoothed_position s' ! i =
            smoothed_position s ! i
              + (real_of_int (cube_position s' ! i) - smoothed_position s ! i)
                  * POSITION_SMOOTHING) \<and>
         (\<forall>i<2. smoothed_puck_position s' ! i =
            smoothed_puck_position s ! i
              + (real_of_int (puck_position s' ! i) - smoothed_puck_position s ! i)
                  * PUCK_POSITION_SMOOTHING) \<and>
         ((\<forall>h\<in>set frame. zone_of (fst h) = COMMAND) \<longrightarrow>
            cube_rotation s' = cube_rotation s \<and> cube_position s' = cube_position s) \<and>
         ((\<forall>h\<in>set frame. zone_of (fst h) = VISUALIZER) \<longrightarrow>
            puck_position s' = puck_position s) \<and>
         wf_state s' \<and>
         (\<forall>f raw sm n. raw - smooth_iter n f raw sm = (raw - sm) * (1 - f) ^ n) \<and>
         (\<forall>f raw sm n. 0 < f \<and> f < 1 \<longrightarrow>
            \<bar>raw - smooth_iter (Suc n) f raw sm\<bar> \<le> \<bar>raw - smooth_iter n f raw sm\<bar> \<and>
            (sm \<le> raw \<longrightarrow> smooth_iter n f raw sm \<le> raw) \<and>
            (raw \<le> sm \<longrightarrow> raw \<le> smooth_iter n f raw sm)) \<and>
         (\<forall>f raw sm. 0 < f \<and> f < 1 \<longrightarrow> (\<lambda>n. smooth_iter n f raw sm) \<longlonglongrightarrow> raw) \<and>
         0 < SMOOTHING_FACTOR \<and> SMOOTHING_FACTOR < 1 \<and>
         0 < POSITION_SMOOTHING \<and> POSITION_SMOOTHING < 1 \<and>
         0 < PUCK_POSITION_SMOOTHING \<and> PUCK_POSITION_SMOOTHING < 1"
proof -
  from assms(1) obtain s1 where
    p: "process_hands (s\<lparr>active_control := None\<rparr>) frame = Inr (s1, cs)"
    and s': "s' = apply_smoothing s1"
    by (rule tick_split)
  note k = process_hands_keeps [OF p]
  from k assms(2) have wf1: "wf_state s1"
    by (simp add: wf_state_def)
  note a = apply_smoothing_nth [OF wf1]
  from k have sm: "smoothed_rotation s1 = smoothed_rotation s"
    "smoothed_position s1 = smoothed_position s"
    "smoothed_puck_position s1 = smoothed_puck_position s"
    by simp_all
  have raw: "cube_rotation s' = cube_rotation s1" "cube_position s' = cube_position s1"
    "puck_position s' = puck_position s1"
    by (simp_all add: s' apply_smoothing_raw)
  have raw': "cube_rotation (apply_smoothing s1) = cube_rotation s1"
    "cube_position (apply_smoothing s1) = cube_position s1"
    "puck_position (apply_smoothing s1) = puck_position s1"
    by (simp_all add: apply_smoothing_raw)
  note a' = a [unfolded smooth_step_def sm]
  have 1: "\<forall>i<3. smoothed_rotation s' ! i =
            smoothed_rotation s ! i
              + (cube_rotation s' ! i - smoothed_rotation s ! i) * SMOOTHING_FACTOR"
    unfolding s' raw' using a' by blast
  have 2: "\<forall>i<2. smoothed_position s' ! i =
            smoothed_position s ! i
              + (real_of_int (cube_position s' ! i) - smoothed_position s ! i)
                  * POSITION_SMOOTHING"
    unfolding s' raw' using a' by blast
  have 3: "\<forall>i<2. smoothed_puck_position s' ! i =
            smoothed_puck_position s ! i
              + (real_of_int (puck_position s' ! i) - smoothed_puck_position s ! i)
                  * PUCK_POSITION_SMOOTHING"
    unfolding s' raw' using a' by blast
  have 4: "(\<forall>h\<in>set frame. zone_of (fst h) = COMMAND) \<longrightarrow>
            cube_rotation s' = cube_rotation s \<and> cube_position s' = cube_position s"
    using k unfolding raw by simp
  have 5: "(\<forall>h\<in>set frame. zone_of (fst h) = VISUALIZER) \<longrightarrow>
            puck_position s' = puck_position s"
    using k unfolding raw by simp
  have 6: "wf_state s'"
    using a unfolding s' by blast
  have 7: "\<forall>f raw sm n. raw - smooth_iter n f raw sm = (raw - sm) * (1 - f) ^ n"
    using smooth_iter_error by blast
  have 8: "\<forall>f raw sm n. 0 < f \<and> f < 1 \<longrightarrow>
            \<bar>raw - smooth_iter (Suc n) f raw sm\<bar> \<le> \<bar>raw - smooth_iter n f raw sm\<bar> \<and>
            (sm \<le> raw \<longrightarrow> smooth_iter n f raw sm \<le> raw) \<and>
            (raw \<le> sm \<longrightarrow> raw \<le> smooth_iter n f raw sm)"
    using smooth_iter_no_overshoot by blast
  have 9: "\<forall>f raw sm. 0 < f \<and> f < 1 \<longrightarrow> (\<lambda>n. smooth_iter n f raw sm) \<longlonglongrightarrow> raw"
    using smooth_iter_converges by blast
  have 10: "0 < SMOOTHING_FACTOR \<and> SMOOTHING_FACTOR < 1 \<and>
         0 < POSITION_SMOOTHING \<and> POSITION_SMOOTHING < 1 \<and>
         0 < PUCK_POSITION_SMOOTHING \<and> PUCK_POSITION_SMOOTHING < 1"
    by (simp add: SMOOTHING_FACTOR_def POSITION_SMOOTHING_def PUCK_POSITION_SMOOTHING_def)
  from 1 2 3 4 5 6 7 8 9 10 show ?thesis by blast
qed

text \<open>
  A tick with the tilted hand moves the smoothed visualizer y-coordinate from 200 towards
  180 by 15 percent, to 197; two steps with factor one half take 0 to 6 on the way to 8.
\<close>

theorem smoothing_update_and_convergence_witness:
  "wf_state initial_state \<and>
   tick initial_state [(tilted_hand, 1000)] =
     Inr (apply_smoothing (cube_update (initial_state\<lparr>active_control := None\<rparr>) tilted_hand (9 * pi / 10)),
          [GetHandRotation tilted_hand]) \<and>
   smoothed_position
     (apply_smoothing (cube_update (initial_state\<lparr>active_control := None\<rparr>) tilted_hand (9 * pi / 10))) ! 1
     = 197 \<and>
   smooth_iter 2 (1 / 2) 8 0 = 6"
proof -
  have w: "wf_state initial_state"
    by (simp add: wf_state_def initial_state_def)
  have a: "tick initial_state [(tilted_hand, 1000)] =
       Inr (apply_smoothing (cube_update (initial_state\<lparr>active_control := None\<rparr>) tilted_hand (9 * pi / 10)),
            [GetHandRotation tilted_hand])"
    using tick_single_visualizer [of tilted_hand initial_state 1000]
    by (simp add: tilted_hand_facts)
  note t = smoothing_update_and_convergence [OF a w]
  let ?s' = "apply_smoothing (cube_update (initial_state\<lparr>active_control := None\<rparr>) tilted_hand (9 * pi / 10))"
  from t have "smoothed_position ?s' ! 1 =
      smoothed_position initial_state ! 1
        + (real_of_int (cube_position ?s' ! 1) - smoothed_position initial_state ! 1)
            * POSITION_SMOOTHING"
    by simp
  moreover have "cube_position ?s' ! 1 = 180"
    by (simp add: apply_smoothing_raw cube_update_def initial_state_def tilted_hand_facts)
  ultimately have 1: "smoothed_position ?s' ! 1 = 197"
    by (simp add: initial_state_def POSITION_SMOOTHING_def)
  from t have "(8::real) - smooth_iter 2 (1 / 2) 8 0 = (8 - 0) * (1 - 1 / 2) ^ 2"
    by blast
  then have 2: "smooth_iter 2 (1 / 2) 8 0 = 6"
    by (simp add: power2_eq_square)
  from w a 1 2 show ?thesis by blast
qed

section \<open>A tick with two hands\<close>

lemma cube_update_fields:
  "previous_hand_position (cube_update s lms a) = previous_hand_position s"
  "last_gesture_time (cube_update s lms a) = last_gesture_time s"
  "active_control (cube_update s lms a) = active_control s"
  "puck_position (cube_update s lms a) = puck_position s"
  by (simp_all add: cube_update_def)

lemma cube_update_rotation:
  assumes "length (cube_rotation s) = 3"
  shows "cube_rotation (cube_update s lms a) = [0, a * ROTATION_SENSITIVITY, 0]"
proof -
  have "cube_rotation (cube_update s lms a) =
      (cube_rotation s)[0 := 0, 1 := a * ROTATION_SENSITIVITY, 2 := 0]"
    by (simp add: cube_update_def)
  also have "\<dots> = [0, a * ROTATION_SENSITIVITY, 0]"
    using assms by (rule list3_update)
  finally show ?thesis .
qed

lemma puck_update_fields:
  "last_gesture_time (puck_update s lms p) = last_gesture_time s"
  "active_control (puck_update s lms p) = active_control s"
  "cube_rotation (puck_update s lms p) = cube_rotation s"
  "cube_position (puck_update s lms p) = cube_position s"
  by (simp_all add: puck_update_def)

lemma debounce_accepted:
  "GESTURE_COOLDOWN < t - last_gesture_time s \<Longrightarrow>
     debounce (Some d) t s = (s\<lparr>active_control := Some d, last_gesture_time := t\<rparr>, [dispatch d])"
  by (simp add: debounce_def accepts_def)

lemma debounce_rejected:
  "\<not> GESTURE_COOLDOWN < t - last_gesture_time s \<Longrightarrow> debounce dir t s = (s, [])"
  by (simp add: debounce_def accepts_def)

lemma classify_up:
  "dy < - GESTURE_THRESHOLD \<Longrightarrow> classify_direction (0, dy) = Some UP"
  by (simp add: classify_direction_def Let_def GESTURE_THRESHOLD_def)

lemma detect_up:
  assumes "9 < length lms" and "lm_x (lms ! 8) = lm_x (lms ! 0)"
    and "lm_y (lms ! 8) - lm_y (lms ! 0) < - GESTURE_THRESHOLD"
    and "prev = None \<or>
         (\<exists>p. prev = Some p \<and>
              MOVEMENT_THRESHOLD \<le> norm2 (lm_x (lms ! 9) - fst p, lm_y (lms ! 9) - snd p))"
  shows "detect_hand_direction lms prev = Inr (Some UP, (lm_x (lms ! 9), lm_y (lms ! 9)))"
proof -
  have "detect_hand_direction lms prev =
      Inr (classify_direction (lm_x (lms ! 8) - lm_x (lms ! 0), lm_y (lms ! 8) - lm_y (lms ! 0)),
           (lm_x (lms ! 9), lm_y (lms ! 9)))"
    using assms(1,4) by (auto simp: detect_hand_direction_def Let_def)
  also have "lm_x (lms ! 8) - lm_x (lms ! 0) = 0"
    using assms(2) by simp
  finally show ?thesis
    using classify_up [OF assms(3)] by simp
qed

lemma tick_left_right:
  assumes "9 < length L" and "9 < length R"
    and "zone_of L = VISUALIZER" and "zone_of R = COMMAND"
    and "detect_hand_direction R (previous_hand_position s) = Inr (dir, palm)"
    and "r = debounce dir (real tR / 1000)
               (puck_update (cube_update (s\<lparr>active_control := None\<rparr>) L (spec_yaw L)) R palm)"
  shows "tick s [(L, tL), (R, tR)] =
     Inr (apply_smoothing (fst r), GetHandRotation L # DetectHandDirection R # snd r)"
proof -
  let ?s0 = "s\<lparr>active_control := None\<rparr>"
  let ?s1 = "cube_update ?s0 L (spec_yaw L)"
  have p1: "process_hand ?s0 (L, tL) = Inr (?s1, [GetHandRotation L])"
    using assms(1,3) by (rule process_hand_visualizer)
  have d: "detect_hand_direction R (previous_hand_position ?s1) = Inr (dir, palm)"
    using assms(5) by (simp add: cube_update_fields)
  have p2: "process_hand ?s1 (R, tR) = Inr (fst r, DetectHandDirection R # snd r)"
    unfolding assms(6) using assms(2,4) d by (rule process_hand_command)
  show ?thesis
    by (simp add: tick_def p1 p2)
qed

lemma tick_right_left:
  assumes "9 < length L" and "9 < length R"
    and "zone_of L = VISUALIZER" and "zone_of R = COMMAND"
    and "detect_hand_direction R (previous_hand_position s) = Inr (dir, palm)"
    and "r = debounce dir (real tR / 1000) (puck_update (s\<lparr>active_control := None\<rparr>) R palm)"
  shows "tick s [(R, tR), (L, tL)] =
     Inr (apply_smoothing (cube_update (fst r) L (spec_yaw L)),
          DetectHandDirection R # snd r @ [GetHandRotation L])"
proof -
  let ?s0 = "s\<lparr>active_control := None\<rparr>"
  have d: "detect_hand_direction R (previous_hand_position ?s0) = Inr (dir, palm)"
    using assms(5) by simp
  have p1: "process_hand ?s0 (R, tR) = Inr (fst r, DetectHandDirection R # snd r)"
    unfolding assms(6) using assms(2,4) d by (rule process_hand_command)
  have p2: "process_hand (fst r) (L, tL) =
      Inr (cube_update (fst r) L (spec_yaw L), [GetHandRotation L])"
    using assms(1,3) by (rule process_hand_visualizer)
  show ?thesis
    by (simp add: tick_def p1 p2)
qed

lemma example_two_hands:
  "length left_hand_example = 21" "length right_hand_example = 21"
  "lm_x (left_hand_example ! 9) = 0.2" "lm_x (right_hand_example ! 9) = 0.8"
  "lm_y (right_hand_example ! 9) = 0.6"
  "lm_x (right_hand_example ! 8) = lm_x (right_hand_example ! 0)"
  "lm_y (right_hand_example ! 8) - lm_y (right_hand_example ! 0) < - GESTURE_THRESHOLD"
  "zone_of left_hand_example = VISUALIZER" "zone_of right_hand_example = COMMAND"
  by (simp_all add: left_hand_example_def right_hand_example_def example_hand_length
      example_hand_nth GESTURE_THRESHOLD_def zone_visualizer_iff zone_command_iff)

text \<open>
  With the left and the right example hand shown 300 ms after the clock started and no
  command accepted before, the classifier returns \<open>UP\<close> but no command is dispatched: the
  last-accepted timestamp starts at 0 and the cooldown has not yet elapsed.
\<close>

theorem early_tick_counterexample:
  "lm_x (left_hand_example ! 9) = 0.2 \<and> lm_x (right_hand_example ! 9) = 0.8 \<and>
   detect_hand_direction right_hand_example (previous_hand_position initial_state)
     = Inr (Some UP, (0.8, 0.6)) \<and>
   last_gesture_time initial_state = 0 \<and>
   map_sum id snd (tick initial_state [(left_hand_example, 300), (right_hand_example, 300)])
     = Inr [GetHandRotation left_hand_example, DetectHandDirection right_hand_example]"
proof -
  have prev: "previous_hand_position initial_state = None"
    and last: "last_gesture_time initial_state = 0"
    by (simp_all add: initial_state_def)
  have lenL: "9 < length left_hand_example" and lenR: "9 < length right_hand_example"
    by (simp_all add: example_two_hands)
  have d: "detect_hand_direction right_hand_example (previous_hand_position initial_state)
     = Inr (Some UP, (0.8, 0.6))"
    using detect_up [of right_hand_example "previous_hand_position initial_state"]
    by (simp add: example_two_hands prev)
  let ?s2 = "puck_update (cube_update (initial_state\<lparr>active_control := None\<rparr>)
               left_hand_example (spec_yaw left_hand_example)) right_hand_example (0.8, 0.6)"
  have "last_gesture_time ?s2 = 0"
    by (simp add: puck_update_fields cube_update_fields last)
  then have "\<not> GESTURE_COOLDOWN < real 300 / 1000 - last_gesture_time ?s2"
    by (simp add: GESTURE_COOLDOWN_def)
  then have r: "debounce (Some UP) (real 300 / 1000) ?s2 = (?s2, [])"
    by (rule debounce_rejected)
  have "tick initial_state [(left_hand_example, 300), (right_hand_example, 300)] =
      Inr (apply_smoothing (fst (?s2, [] :: call list)),
           GetHandRotation left_hand_example # DetectHandDirection right_hand_example
             # snd (?s2, [] :: call list))"
    using lenL lenR example_two_hands(8,9) d r [symmetric] by (rule tick_left_right)
  then have "map_sum id snd
       (tick initial_state [(left_hand_example, 300), (right_hand_example, 300)])
     = Inr [GetHandRotation left_hand_example, DetectHandDirection right_hand_example]"
    by simp
  with d last show ?thesis
    by (simp add: example_two_hands)
qed

text \<open>
  Claim C9, amended. In a tick with a left hand at palm x = 0.2 and a right hand at palm
  x = 0.8 whose fingertip points straight up beyond the gesture threshold, with the movement
  gate passed, no command accepted before (timestamp 0) and the clock reading of the right
  hand more than the cooldown after 0, the calls of the tick are the estimator on the left
  hand, the classifier on the right hand and one volume-up dispatch, in the order of the
  hands; the rotation is set from the left hand's yaw, and the estimator is never called on
  the right hand.
\<close>

theorem two_hand_tick_volume_up:
  assumes "length L = 21" and "length R = 21"
    and "lm_x (L ! 9) = 0.2" and "lm_x (R ! 9) = 0.8"
    and "lm_x (R ! 8) = lm_x (R ! 0)"
    and "lm_y (R ! 8) - lm_y (R ! 0) < - GESTURE_THRESHOLD"
    and "previous_hand_position s = None \<or>
         (\<exists>p. previous_hand_position s = Some p \<and>
              MOVEMENT_THRESHOLD \<le> norm2 (lm_x (R ! 9) - fst p, lm_y (R ! 9) - snd p))"
    and "last_gesture_time s = 0"
    and "GESTURE_COOLDOWN < real tR / 1000"
    and "length (cube_rotation s) = 3"
  shows "(\<exists>s'. tick s [(L, tL), (R, tR)] =
              Inr (s', [GetHandRotation L, DetectHandDirection R, VolumeUpCall]) \<and>
            active_control s' = Some UP \<and> last_gesture_time s' = real tR / 1000 \<and>
            (\<exists>angle_x angle_y angle_z.
               get_hand_rotation L = Inr (angle_x, angle_y, angle_z) \<and>
               cube_rotation s' = [0, angle_y * ROTATION_SENSITIVITY, 0])) \<and>
         (\<exists>s'. tick s [(R, tR), (L, tL)] =
              Inr (s', [DetectHandDirection R, VolumeUpCall, GetHandRotation L]) \<and>
            active_control s' = Some UP \<and> last_gesture_time s' = real tR / 1000 \<and>
            (\<exists>angle_x angle_y angle_z.
               get_hand_rotation L = Inr (angle_x, angle_y, angle_z) \<and>
               cube_rotation s' = [0, angle_y * ROTATION_SENSITIVITY, 0]))"
proof -
  have lenL: "9 < length L" and lenR: "9 < length R"
    using assms(1,2) by simp_all
  have zL: "zone_of L = VISUALIZER"
    using assms(3) by (simp add: zone_visualizer_iff)
  have zR: "zone_of R = COMMAND"
    using assms(4) by (simp add: zone_command_iff)
  let ?palm = "(lm_x (R ! 9), lm_y (R ! 9))"
  let ?t = "real tR / 1000"
  let ?s0 = "s\<lparr>active_control := None\<rparr>"
  have d: "detect_hand_direction R (previous_hand_position s) = Inr (Some UP, ?palm)"
    using lenR assms(5,6,7) by (rule detect_up)
  have g: "get_hand_rotation L = Inr (spec_pitch L, spec_yaw L, 0)"
    using lenL by (rule get_hand_rotation_value)
  have len0: "length (cube_rotation ?s0) = 3"
    using assms(10) by simp
  \<comment> \<open>left hand first\<close>
  let ?a2 = "puck_update (cube_update ?s0 L (spec_yaw L)) R ?palm"
  let ?a3 = "?a2\<lparr>active_control := Some UP, last_gesture_time := ?t\<rparr>"
  have "last_gesture_time ?a2 = 0"
    using assms(8) by (simp add: puck_update_fields cube_update_fields)
  with assms(9) have "GESTURE_COOLDOWN < ?t - last_gesture_time ?a2"
    by simp
  then have ra: "debounce (Some UP) ?t ?a2 = (?a3, [dispatch UP])"
    by (rule debounce_accepted)
  have ta: "tick s [(L, tL), (R, tR)] =
      Inr (apply_smoothing (fst (?a3, [dispatch UP])),
           GetHandRotation L # DetectHandDirection R # snd (?a3, [dispatch UP]))"
    using lenL lenR zL zR d ra [symmetric] by (rule tick_left_right)
  have ca: "cube_rotation (apply_smoothing ?a3) = [0, spec_yaw L * ROTATION_SENSITIVITY, 0]"
    using cube_update_rotation [OF len0, of L "spec_yaw L"]
    by (simp add: apply_smoothing_raw puck_update_fields)
  have A: "\<exists>s'. tick s [(L, tL), (R, tR)] =
              Inr (s', [GetHandRotation L, DetectHandDirection R, VolumeUpCall]) \<and>
            active_control s' = Some UP \<and> last_gesture_time s' = real tR / 1000 \<and>
            (\<exists>angle_x angle_y angle_z.
               get_hand_rotation L = Inr (angle_x, angle_y, angle_z) \<and>
               cube_rotation s' = [0, angle_y * ROTATION_SENSITIVITY, 0])"
  proof (intro exI conjI)
    show "tick s [(L, tL), (R, tR)] =
        Inr (apply_smoothing ?a3, [GetHandRotation L, DetectHandDirection R, VolumeUpCall])"
      using ta by simp
    show "active_control (apply_smoothing ?a3) = Some UP"
      by (simp add: apply_smoothing_raw)
    show "last_gesture_time (apply_smoothing ?a3) = real tR / 1000"
      by (simp add: apply_smoothing_raw)
    show "get_hand_rotation L = Inr (spec_pitch L, spec_yaw L, 0)"
      by (rule g)
    show "cube_rotation (apply_smoothing ?a3) = [0, spec_yaw L * ROTATION_SENSITIVITY, 0]"
      by (rule ca)
  qed
  \<comment> \<open>right hand first\<close>
  let ?b1 = "puck_update ?s0 R ?palm"
  let ?b2 = "?b1\<lparr>active_control := Some UP, last_gesture_time := ?t\<rparr>"
  let ?b3 = "cube_update ?b2 L (spec_yaw L)"
  have "last_gesture_time ?b1 = 0"
    using assms(8) by (simp add: puck_update_fields)
  with assms(9) have "GESTURE_COOLDOWN < ?t - last_gesture_time ?b1"
    by simp
  then have rb: "debounce (Some UP) ?t ?b1 = (?b2, [dispatch UP])"
    by (rule debounce_accepted)
  have tb: "tick s [(R, tR), (L, tL)] =
      Inr (apply_smoothing (cube_update (fst (?b2, [dispatch UP])) L (spec_yaw L)),
           DetectHandDirection R # snd (?b2, [dispatch UP]) @ [GetHandRotation L])"
    using lenL lenR zL zR d rb [symmetric] by (rule tick_right_left)
  have lenb: "length (cube_rotation ?b2) = 3"
    using assms(10) by (simp add: puck_update_fields)
  have cb: "cube_rotation (apply_smoothing ?b3) = [0, spec_yaw L * ROTATION_SENSITIVITY, 0]"
    using cube_update_rotation [OF lenb, of L "spec_yaw L"]
    by (simp add: apply_smoothing_raw)
  have B: "\<exists>s'. tick s [(R, tR), (L, tL)] =
              Inr (s', [DetectHandDirection R, VolumeUpCall, GetHandRotation L]) \<and>
            active_control s' = Some UP \<and> last_gesture_time s' = real tR / 1000 \<and>
            (\<exists>angle_x angle_y angle_z.
               get_hand_rotation L = Inr (angle_x, angle_y, angle_z) \<and>
               cube_rotation s' = [0, angle_y * ROTATION_SENSITIVITY, 0])"
  proof (intro exI conjI)
    show "tick s [(R, tR), (L, tL)] =
        Inr (apply_smoothing ?b3, [DetectHandDirection R, VolumeUpCall, GetHandRotation L])"
      using tb by simp
    show "active_control (apply_smoothing ?b3) = Some UP"
      by (simp add: apply_smoothing_raw cube_update_fields)
    show "last_gesture_time (apply_smoothing ?b3) = real tR / 1000"
      by (simp add: apply_smoothing_raw cube_update_fields)
    show "get_hand_rotation L = Inr (spec_pitch L, spec_yaw L, 0)"
      by (rule g)
    show "cube_rotation (apply_smoothing ?b3) = [0, spec_yaw L * ROTATION_SENSITIVITY, 0]"
      by (rule cb)
  qed
  from A B show ?thesis by blast
qed

text \<open>The two example hands 600 ms after the clock started, in both orders.\<close>

theorem two_hand_tick_volume_up_witness:
  "map_sum id snd (tick initial_state [(left_hand_example, 600), (right_hand_example, 600)])
     = Inr [GetHandRotation left_hand_example, DetectHandDirection right_hand_example,
            VolumeUpCall] \<and>
   map_sum id snd (tick initial_state [(right_hand_example, 600), (left_hand_example, 600)])
     = Inr [DetectHandDirection right_hand_example, VolumeUpCall,
            GetHandRotation left_hand_example]"
proof -
  have "previous_hand_position initial_state = None \<or>
         (\<exists>p. previous_hand_position initial_state = Some p \<and>
              MOVEMENT_THRESHOLD \<le> norm2 (lm_x (right_hand_example ! 9) - fst p,
                                          lm_y (right_hand_example ! 9) - snd p))"
    by (simp add: initial_state_def)
  moreover have "last_gesture_time initial_state = 0"
    "length (cube_rotation initial_state) = 3"
    by (simp_all add: initial_state_def)
  moreover have "GESTURE_COOLDOWN < real 600 / 1000"
    by (simp add: GESTURE_COOLDOWN_def)
  ultimately have
    "(\<exists>s'. tick initial_state [(left_hand_example, 600), (right_hand_example, 600)] =
              Inr (s', [GetHandRotation left_hand_example,
                        DetectHandDirection right_hand_example, VolumeUpCall])) \<and>
     (\<exists>s'. tick initial_state [(right_hand_example, 600), (left_hand_example, 600)] =
              Inr (s', [DetectHandDirection right_hand_example, VolumeUpCall,
                        GetHandRotation left_hand_example]))"
    using two_hand_tick_volume_up [of left_hand_example right_hand_example initial_state
        600 600] example_two_hands
    by blast
  then show ?thesis
    by auto
qed

end
